theory Spec2Isabelle
  imports Main "HOL-Library.Word" "HOL-Library.Sublist"
begin

section \<open>The file store server of main.go\<close>

text \<open>
  The two HTTP handlers of \<^verbatim>\<open>main.go\<close>, \<^verbatim>\<open>handleUpload\<close> and \<^verbatim>\<open>handleDownload\<close>, and
  \<^verbatim>\<open>generateUniqueID\<close>, as functions over an explicit file system. What the handlers
  take from the operating system and from the Go library is written out: the outcome of
  each fallible call is a field of \<open>osenv\<close>, the file system is a map from path names to
  nodes, and every handler returns its response, the file system it leaves and the list
  of file-system calls it made. Logging (\<^verbatim>\<open>slog\<close>) has no effect on either and is left out.
\<close>

subsection \<open>Bytes, files and the environment of one handler call\<close>

type_synonym byte = "8 word"
type_synonym bytes = "byte list"

datatype node = File bytes | Dir

type_synonym filesystem = "string \<rightharpoonup> node"

text \<open>
  One value of \<open>osenv\<close> fixes what the operating system answers during one handler call:
  the process id and the clock reading that \<^verbatim>\<open>generateUniqueID\<close> takes, and for each
  fallible call whether it fails for a reason outside the file system map (permissions,
  a full disk, a name that is too long, a client that stops reading).
  \<open>write_fault = Some (k, txt)\<close>: writing to the new file fails once \<open>k\<close> bytes are
  written, with the system's error text \<open>txt\<close>. \<open>send_fault = Some k\<close>: copying the file
  to the response stops after \<open>k\<close> bytes.
\<close>

record osenv =
  getpid :: int
  unix_nano :: int
  mkdir_fault :: bool
  create_fault :: bool
  write_fault :: "(nat \<times> string) option"
  remove_fault :: bool
  stat_fault :: bool
  open_fault :: bool
  send_fault :: "nat option"

datatype oscall =
    MkdirAll string
  | Create string
  | CopyTo string
  | Remove string
  | Stat string
  | Open string
  | CopyFrom string

subsection \<open>Requests and responses\<close>

text \<open>
  The fields of \<^verbatim>\<open>*http.Request\<close> that the handlers read. \<open>rorigin\<close> is
  \<^verbatim>\<open>r.Header.Get("Origin")\<close> (empty when the header is absent), \<open>rtls\<close> is
  \<^verbatim>\<open>r.TLS != nil\<close>. The body is a stream: it delivers \<open>rbody\<close> and then ends, with
  \<^verbatim>\<open>io.EOF\<close> (\<open>rbody_err = None\<close>) or with a read error of the given message (a client
  that disconnects in the middle of the body).
\<close>

record request =
  rmethod :: string
  rpath :: string
  rhost :: string
  rtls :: bool
  rorigin :: string
  rbody :: bytes
  rbody_err :: "string option"

text \<open>
  A response body is the text that \<^verbatim>\<open>http.Error\<close> prints, the JSON encoding of an object
  with the given string fields (written by \<^verbatim>\<open>json.NewEncoder(w).Encode\<close>), or raw bytes
  copied from a file.
\<close>

datatype body = TextBody string | JsonBody "(string \<times> string) list" | RawBody bytes

record response =
  status :: nat
  headers :: "string \<rightharpoonup> string"
  payload :: body

record outcome =
  resp :: response
  store :: filesystem
  calls :: "oscall list"

definition maxUploadSize :: nat where
  "maxUploadSize = 50 * 1024 * 1024"

subsection \<open>Library functions the handlers call\<close>

text \<open>\<^verbatim>\<open>fmt.Sprintf("%d", n)\<close>: the decimal digits of \<open>n\<close>, after a minus sign when negative.\<close>

definition digit_char :: "nat \<Rightarrow> char" where
  "digit_char d = char_of (48 + d)"

function itoa :: "nat \<Rightarrow> string" where
  "itoa n = (if n < 10 then [digit_char n] else itoa (n div 10) @ [digit_char (n mod 10)])"
  by pat_completeness auto
termination
  by (relation "measure (\<lambda>n. n)") auto

declare itoa.simps [simp del]

definition Sprintf_d :: "int \<Rightarrow> string" where
  "Sprintf_d i = (if i < 0 then CHR ''-'' # itoa (nat (- i)) else itoa (nat i))"

text \<open>
  \<^verbatim>\<open>filepath.Base\<close> (Unix): the empty path gives \<open>.\<close>; trailing separators are stripped;
  what follows the last separator is returned; a path of separators only gives \<open>/\<close>.
\<close>

definition Base :: "string \<Rightarrow> string" where
  "Base path =
     (if path = [] then ''.''
      else let stripped = rev (dropWhile (\<lambda>c. c = CHR ''/'') (rev path));
               elem = rev (takeWhile (\<lambda>c. c \<noteq> CHR ''/'') (rev stripped))
           in if elem = [] then ''/'' else elem)"

text \<open>
  \<^verbatim>\<open>filepath.Clean\<close> (Unix), element by element: the path is cut at its separators;
  empty elements and \<open>.\<close> are dropped; \<open>..\<close> removes the element before it when there is
  one that is not itself \<open>..\<close>, is dropped at the top of a rooted path and is kept at the
  front of a relative one; the elements left are joined by single separators, after a
  leading separator when the path is rooted; an empty result is \<open>.\<close>.
\<close>

fun split_path :: "string \<Rightarrow> string list" where
  "split_path [] = [[]]"
| "split_path (c # cs) =
     (if c = CHR ''/'' then [] # split_path cs
      else (case split_path cs of [] \<Rightarrow> [[c]] | e # es \<Rightarrow> (c # e) # es))"

definition clean_elem :: "bool \<Rightarrow> string list \<Rightarrow> string \<Rightarrow> string list" where
  "clean_elem rooted out e =
     (if e = [] \<or> e = ''.'' then out
      else if e = ''..'' then
        (if out \<noteq> [] \<and> last out \<noteq> ''..'' then butlast out
         else if rooted then out
         else out @ [''..''])
      else out @ [e])"

fun join_path :: "string list \<Rightarrow> string" where
  "join_path [] = []"
| "join_path [e] = e"
| "join_path (e # es) = e @ CHR ''/'' # join_path es"

definition render_path :: "bool \<Rightarrow> string list \<Rightarrow> string" where
  "render_path rooted out =
     (let s = (if rooted then ''/'' else []) @ join_path out
      in if s = [] then ''.'' else s)"

definition is_rooted :: "string \<Rightarrow> bool" where
  "is_rooted path = (case path of [] \<Rightarrow> False | c # _ \<Rightarrow> c = CHR ''/'')"

definition Clean :: "string \<Rightarrow> string" where
  "Clean path =
     (if path = [] then ''.''
      else render_path (is_rooted path)
             (foldl (clean_elem (is_rooted path)) [] (split_path path)))"

text \<open>
  \<^verbatim>\<open>filepath.Join\<close> of two elements: leading empty elements are ignored, the rest is joined
  by a separator and cleaned; all elements empty gives the empty string.
\<close>

definition Join :: "string \<Rightarrow> string \<Rightarrow> string" where
  "Join dir name =
     (if dir \<noteq> [] then Clean (dir @ CHR ''/'' # name)
      else if name \<noteq> [] then Clean name
      else [])"

text \<open>
  \<^verbatim>\<open>http.Error(w, msg, code)\<close>: drops \<^verbatim>\<open>Content-Length\<close>, sets the content type to plain
  text and \<^verbatim>\<open>X-Content-Type-Options\<close>, keeps every other header already set, writes the
  status and prints the message followed by a newline.
\<close>

definition http_Error :: "(string \<rightharpoonup> string) \<Rightarrow> string \<Rightarrow> nat \<Rightarrow> response" where
  "http_Error h msg code =
     \<lparr>status = code,
      headers = (h(''Content-Length'' := None))
                  (''Content-Type'' \<mapsto> ''text/plain; charset=utf-8'',
                   ''X-Content-Type-Options'' \<mapsto> ''nosniff''),
      payload = TextBody (msg @ [CHR 0x0A])\<rparr>"

text \<open>
  \<^verbatim>\<open>http.MaxBytesReader(w, r.Body, n)\<close> as a stream (data, end): a body of at most \<open>n\<close>
  bytes passes unchanged with its own end; of a longer one the first \<open>n\<close> bytes pass and
  the stream ends with the error \<^verbatim>\<open>http: request body too large\<close>.
\<close>

definition MaxBytesReader :: "nat \<Rightarrow> bytes \<times> string option \<Rightarrow> bytes \<times> string option" where
  "MaxBytesReader n rd =
     (if length (fst rd) > n then (take n (fst rd), Some ''http: request body too large'')
      else rd)"

text \<open>
  \<^verbatim>\<open>os.MkdirAll\<close>: succeeds on an existing directory, creates a missing one, fails when
  the name is a file.\<close>

definition os_MkdirAll :: "osenv \<Rightarrow> filesystem \<Rightarrow> string \<Rightarrow> filesystem option" where
  "os_MkdirAll env fs dir =
     (if mkdir_fault env then None
      else case fs (Clean dir) of
             None \<Rightarrow> Some (fs(Clean dir \<mapsto> Dir))
           | Some Dir \<Rightarrow> Some fs
           | Some (File b) \<Rightarrow> None)"

text \<open>\<^verbatim>\<open>os.Create\<close>: creates the file or truncates an existing one; fails on a directory.\<close>

definition os_Create :: "osenv \<Rightarrow> filesystem \<Rightarrow> string \<Rightarrow> filesystem option" where
  "os_Create env fs p =
     (if create_fault env then None
      else case fs p of
             Some Dir \<Rightarrow> None
           | _ \<Rightarrow> Some (fs(p \<mapsto> File [])))"

text \<open>
  \<^verbatim>\<open>io.Copy(file, r.Body)\<close>: every chunk read is written before the end of the stream is
  looked at, so a write that fails inside the data wins over the way the stream ends.
  The error of a failed write is an \<^verbatim>\<open>*os.PathError\<close>, whose text starts with the
  operation and the path.
\<close>

definition io_Copy_to_file ::
  "osenv \<Rightarrow> filesystem \<Rightarrow> string \<Rightarrow> bytes \<times> string option \<Rightarrow> filesystem \<times> string option" where
  "io_Copy_to_file env fs p rd =
     (case write_fault env of
        None \<Rightarrow> (fs(p \<mapsto> File (fst rd)), snd rd)
      | Some (k, txt) \<Rightarrow>
          if k < length (fst rd)
          then (fs(p \<mapsto> File (take k (fst rd))), Some (''write '' @ p @ '': '' @ txt))
          else (fs(p \<mapsto> File (fst rd)), snd rd))"

text \<open>\<^verbatim>\<open>os.Remove\<close>, whose error the handler does not look at.\<close>

definition os_Remove :: "osenv \<Rightarrow> filesystem \<Rightarrow> string \<Rightarrow> filesystem" where
  "os_Remove env fs p = (if remove_fault env then fs else fs(p := None))"

datatype stat_result = StatOk | StatNotExist | StatOtherError

definition os_Stat :: "osenv \<Rightarrow> filesystem \<Rightarrow> string \<Rightarrow> stat_result" where
  "os_Stat env fs p =
     (if stat_fault env then StatOtherError
      else case fs p of None \<Rightarrow> StatNotExist | Some n \<Rightarrow> StatOk)"

definition os_Open :: "osenv \<Rightarrow> filesystem \<Rightarrow> string \<Rightarrow> node option" where
  "os_Open env fs p = (if open_fault env then None else fs p)"

text \<open>
  \<^verbatim>\<open>io.Copy(w, file)\<close>: the bytes that reach the response. Reading a directory fails at
  once; the copy of a file may stop early.
\<close>

definition io_Copy_from_file :: "osenv \<Rightarrow> node \<Rightarrow> bytes" where
  "io_Copy_from_file env n =
     (case n of
        Dir \<Rightarrow> []
      | File b \<Rightarrow> (case send_fault env of None \<Rightarrow> b | Some k \<Rightarrow> take k b))"

subsection \<open>The key generator and the handlers\<close>

text \<open>\<^verbatim>\<open>getDataDir\<close>, from the value of the environment variable \<^verbatim>\<open>DATA_DIR\<close>.\<close>

definition getDataDir :: "string \<Rightarrow> string" where
  "getDataDir dir = (if dir \<noteq> [] then dir else ''./data'')"

definition generateUniqueID :: "osenv \<Rightarrow> string" where
  "generateUniqueID env = Sprintf_d (getpid env) @ Sprintf_d (unix_nano env)"

text \<open>
  \<^verbatim>\<open>handleUpload\<close>, branch by branch as in the source: the method guard (405, before
  any header is set); the three CORS headers, the origin echoed; \<^verbatim>\<open>os.MkdirAll\<close> (500);
  the body wrapped in \<^verbatim>\<open>http.MaxBytesReader\<close>; the key and \<^verbatim>\<open>filepath.Join\<close>;
  \<^verbatim>\<open>os.Create\<close> (500); \<^verbatim>\<open>io.Copy\<close>, and on its error \<^verbatim>\<open>os.Remove\<close> and then 413 when
  the error text is \<^verbatim>\<open>http: request body too large\<close>, 500 otherwise; on success the
  JSON response, with the implicit status 200. \<open>dataDir\<close> is the package variable of
  that name.
\<close>

definition handleUpload :: "string \<Rightarrow> osenv \<Rightarrow> filesystem \<Rightarrow> request \<Rightarrow> outcome" where
  "handleUpload dataDir env fs r =
     (if rmethod r \<noteq> ''POST'' then
        \<lparr>resp = http_Error Map.empty ''Method not allowed'' 405, store = fs, calls = []\<rparr>
      else
        let origin = rorigin r;
            h = [''Access-Control-Allow-Origin'' \<mapsto> origin,
                 ''Access-Control-Allow-Methods'' \<mapsto> ''POST'',
                 ''Access-Control-Allow-Headers'' \<mapsto> ''Content-Type'']
        in case os_MkdirAll env fs dataDir of
             None \<Rightarrow>
               \<lparr>resp = http_Error h ''Internal server error'' 500, store = fs,
                calls = [MkdirAll dataDir]\<rparr>
           | Some fs1 \<Rightarrow>
               let rd = MaxBytesReader maxUploadSize (rbody r, rbody_err r);
                   dataKey = generateUniqueID env;
                   filePath = Join dataDir dataKey
               in (case os_Create env fs1 filePath of
                    None \<Rightarrow>
                      \<lparr>resp = http_Error h ''Could not create file'' 500, store = fs1,
                       calls = [MkdirAll dataDir, Create filePath]\<rparr>
                  | Some fs2 \<Rightarrow>
                      (let cp = io_Copy_to_file env fs2 filePath rd
                       in case snd cp of
                            Some err \<Rightarrow>
                              \<lparr>resp =
                                 (if err = ''http: request body too large''
                                  then http_Error h
                                         (''File too large. Maximum size is ''
                                            @ Sprintf_d (int maxUploadSize) @ '' bytes'') 413
                                  else http_Error h ''Could not save file'' 500),
                               store = os_Remove env (fst cp) filePath,
                               calls = [MkdirAll dataDir, Create filePath, CopyTo filePath,
                                        Remove filePath]\<rparr>
                          | None \<Rightarrow>
                              \<lparr>resp =
                                 \<lparr>status = 200,
                                  headers = h(''Content-Type'' \<mapsto> ''application/json''),
                                  payload = JsonBody
                                    [(''dataKey'', dataKey),
                                     (''url'', (if rtls r then ''https'' else ''http'') @ ''://''
                                               @ rhost r @ ''/api/v2/'' @ dataKey)]\<rparr>,
                               store = fst cp,
                               calls = [MkdirAll dataDir, Create filePath, CopyTo filePath]\<rparr>)))"

text \<open>
  \<^verbatim>\<open>handleDownload\<close>: the method guard (405, before any header is set); the two CORS
  headers; the key, \<^verbatim>\<open>filepath.Base\<close> of the URL path; \<^verbatim>\<open>os.Stat\<close>, where only the
  answer "does not exist" gives 404 and any other error goes on to \<^verbatim>\<open>os.Open\<close> (500
  when that fails); the content type and the copy of the file, with the implicit status
  200 also when the copy breaks off.
\<close>

definition handleDownload :: "string \<Rightarrow> osenv \<Rightarrow> filesystem \<Rightarrow> request \<Rightarrow> outcome" where
  "handleDownload dataDir env fs r =
     (if rmethod r \<noteq> ''GET'' then
        \<lparr>resp = http_Error Map.empty ''Method not allowed'' 405, store = fs, calls = []\<rparr>
      else
        let h = [''Access-Control-Allow-Origin'' \<mapsto> ''*'',
                 ''Access-Control-Allow-Methods'' \<mapsto> ''GET''];
            dataKey = Base (rpath r);
            filePath = Join dataDir dataKey
        in case os_Stat env fs filePath of
             StatNotExist \<Rightarrow>
               \<lparr>resp = http_Error h ''Could not find the file'' 404, store = fs,
                calls = [Stat filePath]\<rparr>
           | _ \<Rightarrow>
               (case os_Open env fs filePath of
                  None \<Rightarrow>
                    \<lparr>resp = http_Error h ''Could not read the file'' 500, store = fs,
                     calls = [Stat filePath, Open filePath]\<rparr>
                | Some n \<Rightarrow>
                    \<lparr>resp =
                       \<lparr>status = 200,
                        headers = h(''Content-Type'' \<mapsto> ''application/octet-stream''),
                        payload = RawBody (io_Copy_from_file env n)\<rparr>,
                     store = fs,
                     calls = [Stat filePath, Open filePath, CopyFrom filePath]\<rparr>))"

subsection \<open>Notions used to state the properties\<close>

text \<open>A proper path element: not empty, not \<open>.\<close>, without a separator.\<close>

definition proper :: "string \<Rightarrow> bool" where
  "proper e = (e \<noteq> [] \<and> e \<noteq> ''.'' \<and> CHR ''/'' \<notin> set e)"

text \<open>
  A path is under a root directory when it is the cleaned root itself or names a direct
  child of it: the cleaned root, a separator, and one proper element other than \<open>..\<close>.
\<close>

definition root_prefix :: "string \<Rightarrow> string" where
  "root_prefix c = (if c = ''.'' then [] else if c = ''/'' then ''/'' else c @ ''/'')"

definition under_root :: "string \<Rightarrow> string \<Rightarrow> bool" where
  "under_root root p =
     (let c = Clean root; pre = root_prefix c; name = drop (length pre) p
      in p = c \<or> (prefix pre p \<and> proper name \<and> name \<noteq> ''..''))"

text \<open>The path a file-system call addresses.\<close>

fun path_of :: "oscall \<Rightarrow> string" where
  "path_of (MkdirAll p) = p"
| "path_of (Create p) = p"
| "path_of (CopyTo p) = p"
| "path_of (Remove p) = p"
| "path_of (Stat p) = p"
| "path_of (Open p) = p"
| "path_of (CopyFrom p) = p"

text \<open>The blobs of a file system: the contents of its regular files, by path.\<close>

definition blob_at :: "filesystem \<Rightarrow> string \<rightharpoonup> bytes" where
  "blob_at fs p = (case fs p of Some (File b) \<Rightarrow> Some b | _ \<Rightarrow> None)"

text \<open>Whether a looked-up node is a regular file.\<close>

definition is_file :: "node option \<Rightarrow> bool" where
  "is_file n = (case n of Some (File b) \<Rightarrow> True | _ \<Rightarrow> False)"

text \<open>Whether a response body is a JSON object.\<close>

definition is_json_object :: "body \<Rightarrow> bool" where
  "is_json_object b = (case b of JsonBody kvs \<Rightarrow> True | _ \<Rightarrow> False)"

subsection \<open>Sample inputs\<close>

text \<open>
  A fault-free environment (process 1, as in the container of the Dockerfile), an upload
  request with a given body and a download request for a given path.
\<close>

definition sample_env :: osenv where
  "sample_env =
     \<lparr>getpid = 1, unix_nano = 1700000000000000000, mkdir_fault = False,
      create_fault = False, write_fault = None, remove_fault = False, stat_fault = False,
      open_fault = False, send_fault = None\<rparr>"

definition sample_post :: "bytes \<Rightarrow> request" where
  "sample_post b =
     \<lparr>rmethod = ''POST'', rpath = ''/api/v2/post/'', rhost = ''localhost:8080'',
      rtls = False, rorigin = ''https://excalidraw.com'', rbody = b, rbody_err = None\<rparr>"

definition sample_get :: "string \<Rightarrow> request" where
  "sample_get p =
     \<lparr>rmethod = ''GET'', rpath = p, rhost = ''localhost:8080'', rtls = False,
      rorigin = ''http://untrusted-origin.com'', rbody = [], rbody_err = None\<rparr>"

text \<open>An upload whose client disconnects after the given bytes.\<close>

definition cut_post :: "bytes \<Rightarrow> request" where
  "cut_post b = (sample_post b)\<lparr>rbody_err := Some ''unexpected EOF''\<rparr>"

section \<open>Facts about the library functions\<close>

subsection \<open>Decimal rendering\<close>

lemma of_char_digit: "d < 10 \<Longrightarrow> of_char (digit_char d) = (48 + d :: nat)"
  by (simp add: digit_char_def)

lemma digit_char_inj: "a < 10 \<Longrightarrow> b < 10 \<Longrightarrow> digit_char a = digit_char b \<Longrightarrow> a = b"
proof -
  assume a: "a < 10" and b: "b < 10" and e: "digit_char a = digit_char b"
  from e have "(of_char (digit_char a) :: nat) = of_char (digit_char b)" by simp
  with a b show "a = b" by (simp add: of_char_digit)
qed

lemma itoa_nonempty: "itoa n \<noteq> []"
  by (subst itoa.simps) simp

lemma itoa_chars: "c \<in> set (itoa n) \<Longrightarrow> \<exists>d<10. c = digit_char d"
proof (induction n rule: itoa.induct)
  case (1 n)
  show ?case
  proof (cases "n < 10")
    case True
    with "1.prems" show ?thesis by (subst (asm) itoa.simps) auto
  next
    case False
    from "1.prems" False have "c \<in> set (itoa (n div 10)) \<or> c = digit_char (n mod 10)"
      by (subst (asm) itoa.simps) auto
    then show ?thesis
    proof
      assume "c \<in> set (itoa (n div 10))"
      with "1.IH" False show ?thesis by simp
    next
      assume "c = digit_char (n mod 10)"
      moreover have "n mod 10 < 10" by simp
      ultimately show ?thesis by blast
    qed
  qed
qed

lemma itoa_inj: "itoa n = itoa m \<Longrightarrow> n = m"
proof (induction n arbitrary: m rule: itoa.induct)
  case (1 n)
  show ?case
  proof (cases "n < 10")
    case n: True
    show ?thesis
    proof (cases "m < 10")
      case True
      with n "1.prems" have "digit_char n = digit_char m"
        by (simp add: itoa.simps[of n] itoa.simps[of m])
      with n True show ?thesis by (rule digit_char_inj)
    next
      case False
      with n "1.prems" have "[digit_char n] = itoa (m div 10) @ [digit_char (m mod 10)]"
        by (simp add: itoa.simps[of n] itoa.simps[of m])
      then have "itoa (m div 10) = []" by simp
      with itoa_nonempty show ?thesis by blast
    qed
  next
    case n: False
    show ?thesis
    proof (cases "m < 10")
      case True
      with n "1.prems" have "itoa (n div 10) @ [digit_char (n mod 10)] = [digit_char m]"
        by (simp add: itoa.simps[of n] itoa.simps[of m])
      then have "itoa (n div 10) = []" by simp
      with itoa_nonempty show ?thesis by blast
    next
      case False
      with n "1.prems" have e: "itoa (n div 10) @ [digit_char (n mod 10)] = itoa (m div 10) @ [digit_char (m mod 10)]"
        by (simp add: itoa.simps[of n] itoa.simps[of m])
      then have "itoa (n div 10) = itoa (m div 10)" and d: "digit_char (n mod 10) = digit_char (m mod 10)"
        by simp_all
      with "1.IH" n have q: "n div 10 = m div 10" by simp
      from d have r: "n mod 10 = m mod 10" by (intro digit_char_inj) simp_all
      from q r show ?thesis by (metis div_mult_mod_eq)
    qed
  qed
qed

lemma digit_char_not_special:
  assumes "d < 10"
  shows "digit_char d \<noteq> CHR ''/''" and "digit_char d \<noteq> CHR ''.''" and "digit_char d \<noteq> CHR ''-''"
proof -
  have v: "(of_char (digit_char d) :: nat) = 48 + d" using assms by (rule of_char_digit)
  show "digit_char d \<noteq> CHR ''/''"
  proof
    assume "digit_char d = CHR ''/''"
    then have "(of_char (digit_char d) :: nat) = of_char CHR ''/''" by simp
    with v show False by simp
  qed
  show "digit_char d \<noteq> CHR ''.''"
  proof
    assume "digit_char d = CHR ''.''"
    then have "(of_char (digit_char d) :: nat) = of_char CHR ''.''" by simp
    with v show False by simp
  qed
  show "digit_char d \<noteq> CHR ''-''"
  proof
    assume "digit_char d = CHR ''-''"
    then have "(of_char (digit_char d) :: nat) = of_char CHR ''-''" by simp
    with v show False by simp
  qed
qed

lemma Sprintf_d_nonempty: "Sprintf_d i \<noteq> []"
  by (simp add: Sprintf_d_def itoa_nonempty)

lemma itoa_no_special:
  assumes "c \<in> set (itoa n)"
  shows "c \<noteq> CHR ''/''" and "c \<noteq> CHR ''.''" and "c \<noteq> CHR ''-''"
proof -
  from assms obtain d where d: "d < 10" and c: "c = digit_char d"
    using itoa_chars by blast
  show "c \<noteq> CHR ''/''" unfolding c using d by (rule digit_char_not_special(1))
  show "c \<noteq> CHR ''.''" unfolding c using d by (rule digit_char_not_special(2))
  show "c \<noteq> CHR ''-''" unfolding c using d by (rule digit_char_not_special(3))
qed

lemma Sprintf_d_chars:
  assumes "c \<in> set (Sprintf_d i)"
  shows "c \<noteq> CHR ''/''" and "c \<noteq> CHR ''.''"
proof -
  from assms have "c = CHR ''-'' \<or> c \<in> set (itoa (nat (- i))) \<or> c \<in> set (itoa (nat i))"
    by (auto simp: Sprintf_d_def split: if_splits)
  then show "c \<noteq> CHR ''/''" and "c \<noteq> CHR ''.''"
    using itoa_no_special(1,2) by auto
qed

lemma itoa_no_minus: "CHR ''-'' \<notin> set (itoa n)"
  using itoa_no_special(3) by blast

lemma Sprintf_d_inj: "Sprintf_d i = Sprintf_d j \<Longrightarrow> i = j"
proof -
  assume e: "Sprintf_d i = Sprintf_d j"
  have hd_itoa: "\<And>n. hd (itoa n) \<noteq> CHR ''-''"
    using itoa_no_minus itoa_nonempty by (metis hd_in_set)
  show "i = j"
  proof (cases "i < 0")
    case i: True
    show ?thesis
    proof (cases "j < 0")
      case True
      with i e have "itoa (nat (- i)) = itoa (nat (- j))" by (simp add: Sprintf_d_def)
      then have "nat (- i) = nat (- j)" by (rule itoa_inj)
      with i True show ?thesis by simp
    next
      case False
      with i e have "CHR ''-'' # itoa (nat (- i)) = itoa (nat j)" by (simp add: Sprintf_d_def)
      then have "hd (itoa (nat j)) = CHR ''-''" by (metis list.sel(1))
      with hd_itoa show ?thesis by blast
    qed
  next
    case i: False
    show ?thesis
    proof (cases "j < 0")
      case True
      with i e have "itoa (nat i) = CHR ''-'' # itoa (nat (- j))" by (simp add: Sprintf_d_def)
      then have "hd (itoa (nat i)) = CHR ''-''" by (metis list.sel(1))
      with hd_itoa show ?thesis by blast
    next
      case False
      with i e have "itoa (nat i) = itoa (nat j)" by (simp add: Sprintf_d_def)
      then have "nat i = nat j" by (rule itoa_inj)
      with i False show ?thesis by simp
    qed
  qed
qed

lemma generateUniqueID_nonempty: "generateUniqueID env \<noteq> []"
  by (simp add: generateUniqueID_def Sprintf_d_nonempty)

lemma generateUniqueID_no_sep: "CHR ''/'' \<notin> set (generateUniqueID env)"
  using Sprintf_d_chars(1) by (auto simp: generateUniqueID_def)

lemma generateUniqueID_no_dot: "CHR ''.'' \<notin> set (generateUniqueID env)"
  using Sprintf_d_chars(2) by (auto simp: generateUniqueID_def)

lemma generateUniqueID_not_dots:
  "generateUniqueID env \<noteq> ''.''" "generateUniqueID env \<noteq> ''..''"
  using generateUniqueID_no_dot [of env] by auto

subsection \<open>Paths\<close>

lemma Base_cases:
  "Base p = ''.'' \<or> Base p = ''/'' \<or> (Base p \<noteq> [] \<and> CHR ''/'' \<notin> set (Base p))"
proof -
  let ?s = "rev (dropWhile (\<lambda>c. c = CHR ''/'') (rev p))"
  have "CHR ''/'' \<notin> set (takeWhile (\<lambda>c. c \<noteq> CHR ''/'') (rev ?s))"
    by (metis (mono_tags, lifting) set_takeWhileD)
  then show ?thesis by (auto simp: Base_def Let_def)
qed

lemma Base_last_segment:
  assumes "k \<noteq> []" and "CHR ''/'' \<notin> set k"
  shows "Base (pre @ CHR ''/'' # k) = k"
proof -
  from assms have l: "last k \<noteq> CHR ''/''" by (metis last_in_set)
  from assms(1) have "rev k \<noteq> []" by simp
  then obtain x xs where r: "rev k = x # xs" by (cases "rev k") auto
  with l assms(1) have x: "x \<noteq> CHR ''/''" by (metis hd_rev list.sel(1))
  have d: "dropWhile (\<lambda>c. c = CHR ''/'') (rev (pre @ CHR ''/'' # k)) = rev (pre @ CHR ''/'' # k)"
    using r x by simp
  have a: "\<forall>c \<in> set (rev k). c \<noteq> CHR ''/''" using assms(2) by auto
  have t: "takeWhile (\<lambda>c. c \<noteq> CHR ''/'') (rev (pre @ CHR ''/'' # k)) = rev k"
    using a by (simp add: takeWhile_tail takeWhile_eq_all_conv)
  show ?thesis using assms(1) by (simp only: Base_def Let_def d t rev_rev_ident) simp
qed

lemma split_path_nonempty: "split_path p \<noteq> []"
  by (induction p) (auto split: list.splits)

lemma split_path_append:
  "split_path (a @ CHR ''/'' # b) = split_path a @ split_path b"
proof (induction a)
  case Nil
  show ?case by simp
next
  case (Cons c cs)
  then show ?case
    using split_path_nonempty [of cs] by (auto split: list.splits)
qed

lemma split_path_single: "CHR ''/'' \<notin> set k \<Longrightarrow> split_path k = [k]"
  by (induction k) auto

lemma split_path_no_sep: "e \<in> set (split_path p) \<Longrightarrow> CHR ''/'' \<notin> set e"
  by (induction p arbitrary: e) (auto split: if_splits list.splits)

lemma is_rooted_append: "dir \<noteq> [] \<Longrightarrow> is_rooted (dir @ rest) = is_rooted dir"
  by (cases dir) (auto simp: is_rooted_def)

lemma clean_elem_proper:
  assumes "\<forall>e \<in> set out. proper e" and "CHR ''/'' \<notin> set x"
  shows "\<forall>e \<in> set (clean_elem rooted out x). proper e"
proof -
  have b: "\<forall>e \<in> set (butlast out). proper e"
    using assms(1) by (meson in_set_butlastD)
  have d: "proper ''..''" by (simp add: proper_def)
  have x: "x \<noteq> [] \<Longrightarrow> x \<noteq> ''.'' \<Longrightarrow> proper x"
    using assms(2) by (simp add: proper_def)
  show ?thesis
    unfolding clean_elem_def using assms(1) b d x by auto
qed

lemma foldl_clean_proper:
  assumes "\<forall>e \<in> set out. proper e" and "\<forall>x \<in> set xs. CHR ''/'' \<notin> set x"
  shows "\<forall>e \<in> set (foldl (clean_elem rooted) out xs). proper e"
  using assms
proof (induction xs arbitrary: out)
  case Nil
  then show ?case by simp
next
  case (Cons x xs)
  have "\<forall>e \<in> set (clean_elem rooted out x). proper e"
    using Cons.prems by (intro clean_elem_proper) simp_all
  then show ?case using Cons.IH Cons.prems(2) by simp
qed

lemma clean_stack_proper:
  "\<forall>e \<in> set (foldl (clean_elem rooted) [] (split_path p)). proper e"
  by (rule foldl_clean_proper) (simp_all add: split_path_no_sep)

lemma join_path_snoc:
  "join_path (out @ [k]) = (if out = [] then k else join_path out @ CHR ''/'' # k)"
  by (induction out rule: join_path.induct) auto

lemma join_path_proper:
  assumes "out \<noteq> []" and "\<forall>e \<in> set out. proper e"
  shows "join_path out \<noteq> []" and "join_path out \<noteq> ''.''" and "join_path out \<noteq> ''/''"
proof -
  from assms(1) obtain e es where o: "out = e # es" by (cases out) auto
  with assms(2) have p: "proper e" by simp
  show "join_path out \<noteq> []" using o p by (cases es) (auto simp: proper_def)
  show "join_path out \<noteq> ''.''" using o p
    by (cases es) (auto simp: proper_def append_eq_Cons_conv)
  show "join_path out \<noteq> ''/''" using o p
    by (cases es) (auto simp: proper_def append_eq_Cons_conv)
qed

lemma getDataDir_nonempty: "getDataDir v \<noteq> []"
  by (simp add: getDataDir_def)

lemma root_prefix_Clean:
  assumes "dir \<noteq> []"
  defines "out \<equiv> foldl (clean_elem (is_rooted dir)) [] (split_path dir)"
  shows "root_prefix (Clean dir) =
           (if out = [] then (if is_rooted dir then ''/'' else [])
            else (if is_rooted dir then ''/'' else []) @ join_path out @ ''/'')"
proof (cases "out = []")
  case True
  then show ?thesis
    using assms by (auto simp: Clean_def render_path_def Let_def root_prefix_def)
next
  case False
  have p: "\<forall>e \<in> set out. proper e" unfolding out_def by (rule clean_stack_proper)
  note j = join_path_proper [OF False p]
  have c: "Clean dir = (if is_rooted dir then ''/'' else []) @ join_path out"
    using assms(1) j(1) by (simp add: Clean_def render_path_def Let_def out_def)
  show ?thesis using False j by (auto simp: c root_prefix_def)
qed

lemma Join_proper:
  assumes "dir \<noteq> []" and "proper k" and "k \<noteq> ''..''"
  shows "Join dir k = root_prefix (Clean dir) @ k"
proof -
  define r where "r = is_rooted dir"
  define out where "out = foldl (clean_elem r) [] (split_path dir)"
  from assms(2) have k: "k \<noteq> []" "k \<noteq> ''.''" "CHR ''/'' \<notin> set k"
    by (simp_all add: proper_def)
  have s: "split_path (dir @ CHR ''/'' # k) = split_path dir @ [k]"
    using k(3) by (simp add: split_path_append split_path_single)
  have f: "foldl (clean_elem r) [] (split_path (dir @ CHR ''/'' # k)) = out @ [k]"
    using k assms(3) by (simp add: s out_def clean_elem_def)
  have ro: "is_rooted (dir @ CHR ''/'' # k) = r"
    using assms(1) by (simp add: is_rooted_append r_def)
  have "Join dir k = render_path r (out @ [k])"
    using assms(1) by (simp add: Join_def Clean_def ro f)
  also have "\<dots> = (if r then ''/'' else []) @ join_path (out @ [k])"
    using k(1) by (simp add: render_path_def Let_def join_path_snoc)
  also have "\<dots> = root_prefix (Clean dir) @ k"
    using root_prefix_Clean [OF assms(1)] by (simp add: join_path_snoc r_def out_def)
  finally show ?thesis .
qed

lemma Join_dot: "dir \<noteq> [] \<Longrightarrow> Join dir ''.'' = Clean dir"
proof -
  assume d: "dir \<noteq> []"
  have s: "split_path (dir @ ''/.'') = split_path dir @ [''.'']"
    using split_path_append [of dir "''.''"] by simp
  show ?thesis
    using d by (simp add: Join_def Clean_def s is_rooted_append clean_elem_def)
qed

lemma Join_sep: "dir \<noteq> [] \<Longrightarrow> Join dir ''/'' = Clean dir"
proof -
  assume d: "dir \<noteq> []"
  have s: "split_path (dir @ ''//'') = split_path dir @ [[], []]"
    using split_path_append [of dir "''/''"] by simp
  show ?thesis
    using d by (simp add: Join_def Clean_def s is_rooted_append clean_elem_def)
qed

lemma under_root_Join:
  assumes "dir \<noteq> []" and "Base p \<noteq> ''..''"
  shows "under_root dir (Join dir (Base p))"
proof -
  consider "Base p = ''.''" | "Base p = ''/''" | "Base p \<noteq> ''.''" "Base p \<noteq> []" "CHR ''/'' \<notin> set (Base p)"
    using Base_cases [of p] by blast
  then show ?thesis
  proof cases
    case 1
    then show ?thesis using assms(1) by (simp add: under_root_def Join_dot Let_def)
  next
    case 2
    then show ?thesis using assms(1) by (simp add: under_root_def Join_sep Let_def)
  next
    case 3
    then have pr: "proper (Base p)" by (simp add: proper_def)
    from Join_proper [OF assms(1) pr assms(2)] pr assms(2)
    show ?thesis by (simp add: under_root_def Let_def)
  qed
qed

subsection \<open>Steps of the handlers\<close>

lemma io_Copy_to_file_ok:
  assumes "snd (io_Copy_to_file env fs p (MaxBytesReader n (b, e))) = None"
  shows "length b \<le> n \<and> e = None \<and> fst (io_Copy_to_file env fs p (MaxBytesReader n (b, e))) = fs(p \<mapsto> File b)"
  using assms
  by (auto simp: io_Copy_to_file_def MaxBytesReader_def split: option.splits if_splits prod.splits)

lemma handleUpload_200:
  assumes "status (resp (handleUpload dataDir env fs r)) = 200"
  shows "rmethod r = ''POST'' \<and> length (rbody r) \<le> maxUploadSize \<and> rbody_err r = None \<and>
         (\<exists>fs1 fs2. os_MkdirAll env fs dataDir = Some fs1 \<and>
            os_Create env fs1 (Join dataDir (generateUniqueID env)) = Some fs2 \<and>
            store (handleUpload dataDir env fs r) = fs2(Join dataDir (generateUniqueID env) \<mapsto> File (rbody r))) \<and>
         resp (handleUpload dataDir env fs r) =
           \<lparr>status = 200,
            headers = [''Access-Control-Allow-Origin'' \<mapsto> rorigin r,
                       ''Access-Control-Allow-Methods'' \<mapsto> ''POST'',
                       ''Access-Control-Allow-Headers'' \<mapsto> ''Content-Type'',
                       ''Content-Type'' \<mapsto> ''application/json''],
            payload = JsonBody
              [(''dataKey'', generateUniqueID env),
               (''url'', (if rtls r then ''https'' else ''http'') @ ''://''
                         @ rhost r @ ''/api/v2/'' @ generateUniqueID env)]\<rparr>"
proof -
  let ?p = "Join dataDir (generateUniqueID env)"
  let ?rd = "MaxBytesReader maxUploadSize (rbody r, rbody_err r)"
  from assms have m: "rmethod r = ''POST''"
    by (auto simp: handleUpload_def http_Error_def split: if_splits)
  from assms m obtain fs1 where f1: "os_MkdirAll env fs dataDir = Some fs1"
    by (cases "os_MkdirAll env fs dataDir") (auto simp: handleUpload_def http_Error_def)
  from assms m f1 obtain fs2 where f2: "os_Create env fs1 ?p = Some fs2"
    by (cases "os_Create env fs1 ?p") (auto simp: handleUpload_def http_Error_def Let_def)
  from assms m f1 f2 have c: "snd (io_Copy_to_file env fs2 ?p ?rd) = None"
    by (cases "snd (io_Copy_to_file env fs2 ?p ?rd)")
       (auto simp: handleUpload_def http_Error_def Let_def split: if_splits)
  from io_Copy_to_file_ok [OF c]
  have l: "length (rbody r) \<le> maxUploadSize" and e: "rbody_err r = None"
    and st: "fst (io_Copy_to_file env fs2 ?p ?rd) = fs2(?p \<mapsto> File (rbody r))"
    by blast+
  have s: "store (handleUpload dataDir env fs r) = fs2(?p \<mapsto> File (rbody r))"
    using m f1 f2 c st by (simp add: handleUpload_def Let_def)
  have p: "resp (handleUpload dataDir env fs r) =
           \<lparr>status = 200,
            headers = [''Access-Control-Allow-Origin'' \<mapsto> rorigin r,
                       ''Access-Control-Allow-Methods'' \<mapsto> ''POST'',
                       ''Access-Control-Allow-Headers'' \<mapsto> ''Content-Type'',
                       ''Content-Type'' \<mapsto> ''application/json''],
            payload = JsonBody
              [(''dataKey'', generateUniqueID env),
               (''url'', (if rtls r then ''https'' else ''http'') @ ''://''
                         @ rhost r @ ''/api/v2/'' @ generateUniqueID env)]\<rparr>"
    using m f1 f2 c by (simp add: handleUpload_def Let_def)
  show ?thesis using m l e f1 f2 s p by blast
qed

lemma handleDownload_file:
  assumes "rmethod g = ''GET''"
    and "fs (Join dataDir (Base (rpath g))) = Some (File b)"
    and "\<not> open_fault env"
  shows "resp (handleDownload dataDir env fs g) =
           \<lparr>status = 200,
            headers = [''Access-Control-Allow-Origin'' \<mapsto> ''*'',
                       ''Access-Control-Allow-Methods'' \<mapsto> ''GET'',
                       ''Content-Type'' \<mapsto> ''application/octet-stream''],
            payload = RawBody (case send_fault env of None \<Rightarrow> b | Some k \<Rightarrow> take k b)\<rparr>"
  using assms
  by (cases "os_Stat env fs (Join dataDir (Base (rpath g)))")
     (auto simp: handleDownload_def Let_def os_Stat_def os_Open_def io_Copy_from_file_def
           split: if_splits)

lemma Base_key: "Base (''/api/v2/'' @ generateUniqueID env) = generateUniqueID env"
  using Base_last_segment [OF generateUniqueID_nonempty generateUniqueID_no_sep, of "''/api/v2''" env]
  by simp

subsection \<open>The sample inputs, evaluated\<close>

lemma digit_char_values:
  "digit_char 0 = CHR ''0''" "digit_char 1 = CHR ''1''" "digit_char 2 = CHR ''2''"
  "digit_char 3 = CHR ''3''" "digit_char 4 = CHR ''4''" "digit_char 5 = CHR ''5''"
  "digit_char 6 = CHR ''6''" "digit_char 7 = CHR ''7''" "digit_char 8 = CHR ''8''"
  "digit_char 9 = CHR ''9''"
  by code_simp+

lemma digit_char_Suc0: "digit_char (Suc 0) = CHR ''1''"
  using digit_char_values(2) by simp

lemmas digit_char_simps = digit_char_values digit_char_Suc0

lemma itoa_1: "itoa (Suc 0) = ''1''"
  by (subst itoa.simps) (simp add: digit_char_Suc0)

lemma itoa_nano: "itoa 1700000000000000000 = ''1700000000000000000''"
  by (simp add: itoa.simps digit_char_simps)

lemma sample_key: "generateUniqueID sample_env = ''11700000000000000000''"
  by (simp add: generateUniqueID_def Sprintf_d_def sample_env_def itoa_1 itoa_nano)

lemma sample_path: "Join ''./data'' ''11700000000000000000'' = ''data/11700000000000000000''"
  by code_simp

lemma sample_root: "Clean ''./data'' = ''data''"
  by code_simp

lemma sample_base: "Base ''/api/v2/11700000000000000000'' = ''11700000000000000000''"
  by code_simp

lemma max_text: "Sprintf_d (int maxUploadSize) = ''52428800''"
  by (simp add: Sprintf_d_def maxUploadSize_def itoa.simps digit_char_simps)

lemma sample_env_fields:
  "getpid sample_env = 1" "unix_nano sample_env = 1700000000000000000"
  "mkdir_fault sample_env = False" "create_fault sample_env = False"
  "write_fault sample_env = None" "remove_fault sample_env = False"
  "stat_fault sample_env = False" "open_fault sample_env = False"
  "send_fault sample_env = None"
  by (simp_all add: sample_env_def)

lemmas sample_simps =
  sample_env_fields sample_post_def sample_get_def sample_key sample_path sample_root sample_base

lemma sample_upload:
  "length b \<le> maxUploadSize \<Longrightarrow>
   handleUpload ''./data'' sample_env Map.empty (sample_post b) =
     \<lparr>resp = \<lparr>status = 200,
              headers = [''Access-Control-Allow-Origin'' \<mapsto> ''https://excalidraw.com'',
                         ''Access-Control-Allow-Methods'' \<mapsto> ''POST'',
                         ''Access-Control-Allow-Headers'' \<mapsto> ''Content-Type'',
                         ''Content-Type'' \<mapsto> ''application/json''],
              payload = JsonBody
                [(''dataKey'', ''11700000000000000000''),
                 (''url'', ''http://localhost:8080/api/v2/11700000000000000000'')]\<rparr>,
      store = [''data'' \<mapsto> Dir, ''data/11700000000000000000'' \<mapsto> File b],
      calls = [MkdirAll ''./data'', Create ''data/11700000000000000000'',
               CopyTo ''data/11700000000000000000'']\<rparr>"
  unfolding handleUpload_def
  by (simp add: sample_simps
        os_MkdirAll_def os_Create_def io_Copy_to_file_def MaxBytesReader_def Let_def)

subsection \<open>The path of a generated key\<close>

lemma key_proper: "proper (generateUniqueID env)" "generateUniqueID env \<noteq> ''..''"
  using generateUniqueID_nonempty generateUniqueID_no_sep generateUniqueID_not_dots
  by (simp_all add: proper_def)

lemma Clean_proper:
  assumes "proper k" and "k \<noteq> ''..''"
  shows "Clean k = k"
proof -
  from assms(1) have k: "k \<noteq> []" "k \<noteq> ''.''" "CHR ''/'' \<notin> set k"
    by (simp_all add: proper_def)
  from k(1,3) have r: "\<not> is_rooted k" by (cases k) (auto simp: is_rooted_def)
  show ?thesis
    using k assms(2) r
    by (simp add: Clean_def split_path_single clean_elem_def render_path_def Let_def)
qed

lemma Join_key_not_root: "Join dataDir (generateUniqueID env) \<noteq> Clean dataDir"
proof (cases "dataDir = []")
  case True
  have "Join dataDir (generateUniqueID env) = generateUniqueID env"
    using True generateUniqueID_nonempty Clean_proper [OF key_proper]
    by (simp add: Join_def)
  moreover have "Clean dataDir = ''.''" using True by (simp add: Clean_def)
  ultimately show ?thesis using generateUniqueID_not_dots(1) by simp
next
  case False
  have "Join dataDir (generateUniqueID env) = root_prefix (Clean dataDir) @ generateUniqueID env"
    using False key_proper by (rule Join_proper)
  then show ?thesis
    using generateUniqueID_nonempty [of env] generateUniqueID_not_dots(1) [of env]
    by (auto simp: root_prefix_def split: if_splits)
qed

subsection \<open>File-system calls and the upload up to the copy\<close>

lemma blob_at_Dir: "blob_at (fs(p \<mapsto> Dir)) q = (if q = p then None else blob_at fs q)"
  by (simp add: blob_at_def)

lemma os_MkdirAll_ok:
  assumes "\<not> mkdir_fault env" and "\<not> is_file (fs (Clean dataDir))"
  shows "\<exists>fs1. os_MkdirAll env fs dataDir = Some fs1 \<and>
               (\<forall>p. p \<noteq> Clean dataDir \<longrightarrow> fs1 p = fs p)"
  using assms by (auto simp: os_MkdirAll_def is_file_def split: option.splits node.splits)

lemma os_MkdirAll_result:
  assumes "os_MkdirAll env fs dataDir = Some fs1"
  shows "fs1 = fs \<or> (fs (Clean dataDir) = None \<and> fs1 = fs(Clean dataDir \<mapsto> Dir))"
  using assms
  by (auto simp: os_MkdirAll_def split: option.splits node.splits if_splits)

lemma os_MkdirAll_frame:
  assumes "os_MkdirAll env fs dataDir = Some fs1"
  shows "blob_at fs1 = blob_at fs" and "p \<noteq> Clean dataDir \<Longrightarrow> fs1 p = fs p"
proof -
  note r = os_MkdirAll_result [OF assms]
  show "blob_at fs1 = blob_at fs"
  proof
    fix q
    from r show "blob_at fs1 q = blob_at fs q"
      by (cases "q = Clean dataDir") (auto simp: blob_at_def)
  qed
  from r show "p \<noteq> Clean dataDir \<Longrightarrow> fs1 p = fs p" by auto
qed

lemma os_Create_ok:
  assumes "\<not> create_fault env" and "fs p \<noteq> Some Dir"
  shows "os_Create env fs p = Some (fs(p \<mapsto> File []))"
  using assms by (auto simp: os_Create_def split: option.splits node.splits)

lemma os_Create_result:
  assumes "os_Create env fs p = Some fs2"
  shows "fs2 = fs(p \<mapsto> File [])"
  using assms by (auto simp: os_Create_def split: option.splits node.splits if_splits)

lemma handleUpload_reaches_copy:
  assumes "rmethod r = ''POST''"
    and "os_MkdirAll env fs dataDir = Some fs1"
    and "os_Create env fs1 (Join dataDir (generateUniqueID env)) = Some fs2"
  shows "handleUpload dataDir env fs r =
     (let h = [''Access-Control-Allow-Origin'' \<mapsto> rorigin r,
               ''Access-Control-Allow-Methods'' \<mapsto> ''POST'',
               ''Access-Control-Allow-Headers'' \<mapsto> ''Content-Type''];
          dataKey = generateUniqueID env;
          filePath = Join dataDir dataKey;
          cp = io_Copy_to_file env fs2 filePath
                 (MaxBytesReader maxUploadSize (rbody r, rbody_err r))
      in case snd cp of
           Some err \<Rightarrow>
             \<lparr>resp =
                (if err = ''http: request body too large''
                 then http_Error h
                        (''File too large. Maximum size is ''
                           @ Sprintf_d (int maxUploadSize) @ '' bytes'') 413
                 else http_Error h ''Could not save file'' 500),
              store = os_Remove env (fst cp) filePath,
              calls = [MkdirAll dataDir, Create filePath, CopyTo filePath, Remove filePath]\<rparr>
         | None \<Rightarrow>
             \<lparr>resp =
                \<lparr>status = 200,
                 headers = h(''Content-Type'' \<mapsto> ''application/json''),
                 payload = JsonBody
                   [(''dataKey'', dataKey),
                    (''url'', (if rtls r then ''https'' else ''http'') @ ''://''
                              @ rhost r @ ''/api/v2/'' @ dataKey)]\<rparr>,
              store = fst cp,
              calls = [MkdirAll dataDir, Create filePath, CopyTo filePath]\<rparr>)"
  using assms by (simp add: handleUpload_def Let_def)

lemma can_store:
  assumes "\<not> mkdir_fault env" and "\<not> create_fault env"
    and "\<not> is_file (fs (Clean dataDir))"
    and "fs (Join dataDir (generateUniqueID env)) \<noteq> Some Dir"
  shows "\<exists>fs1. os_MkdirAll env fs dataDir = Some fs1 \<and>
           os_Create env fs1 (Join dataDir (generateUniqueID env))
             = Some (fs1(Join dataDir (generateUniqueID env) \<mapsto> File []))"
proof -
  from os_MkdirAll_ok [of env fs dataDir, OF assms(1,3)] obtain fs1 where
    m: "os_MkdirAll env fs dataDir = Some fs1"
    and f: "\<forall>p. p \<noteq> Clean dataDir \<longrightarrow> fs1 p = fs p" by blast
  from f Join_key_not_root have "fs1 (Join dataDir (generateUniqueID env)) = fs (Join dataDir (generateUniqueID env))"
    by blast
  with assms(4) have "fs1 (Join dataDir (generateUniqueID env)) \<noteq> Some Dir" by simp
  from os_Create_ok [of env fs1 "Join dataDir (generateUniqueID env)", OF assms(2) this] m
  show ?thesis by simp
qed

subsection \<open>Outcomes of the copy\<close>

lemma handleDownload_absent:
  assumes "rmethod g = ''GET''" and "fs (Join dataDir (Base (rpath g))) = None"
  shows "status (resp (handleDownload dataDir env fs g)) = (if stat_fault env then 500 else 404)"
  using assms
  by (auto simp: handleDownload_def Let_def os_Stat_def os_Open_def http_Error_def)

lemma io_Copy_to_file_empty:
  "io_Copy_to_file env fs p (MaxBytesReader n ([], e)) = (fs(p \<mapsto> File []), e)"
  by (auto simp: io_Copy_to_file_def MaxBytesReader_def split: option.splits)

lemma io_Copy_to_file_within:
  assumes "length b \<le> n" and "write_fault env = None"
  shows "io_Copy_to_file env fs p (MaxBytesReader n (b, e)) = (fs(p \<mapsto> File b), e)"
  using assms by (simp add: io_Copy_to_file_def MaxBytesReader_def)

lemma io_Copy_to_file_over:
  assumes "n < length b"
    and "case write_fault env of None \<Rightarrow> True | Some (k, txt) \<Rightarrow> n \<le> k"
  shows "io_Copy_to_file env fs p (MaxBytesReader n (b, e)) =
           (fs(p \<mapsto> File (take n b)), Some ''http: request body too large'')"
  using assms
  by (auto simp: io_Copy_to_file_def MaxBytesReader_def split: option.splits)

lemma handleUpload_too_large:
  assumes "rmethod r = ''POST''"
    and "\<not> mkdir_fault env" and "\<not> create_fault env"
    and "\<not> is_file (fs (Clean dataDir))"
    and "fs (Join dataDir (generateUniqueID env)) \<noteq> Some Dir"
    and "maxUploadSize < length (rbody r)"
    and "case write_fault env of None \<Rightarrow> True | Some (k, txt) \<Rightarrow> maxUploadSize \<le> k"
  shows "resp (handleUpload dataDir env fs r) =
           http_Error [''Access-Control-Allow-Origin'' \<mapsto> rorigin r,
                       ''Access-Control-Allow-Methods'' \<mapsto> ''POST'',
                       ''Access-Control-Allow-Headers'' \<mapsto> ''Content-Type'']
             ''File too large. Maximum size is 52428800 bytes'' 413"
    and "store (handleUpload dataDir env fs r) (Join dataDir (generateUniqueID env)) =
           (if remove_fault env then Some (File (take maxUploadSize (rbody r))) else None)"
proof -
  let ?p = "Join dataDir (generateUniqueID env)"
  from can_store [OF assms(2,3,4,5)] obtain fs1 where
    m: "os_MkdirAll env fs dataDir = Some fs1"
    and c: "os_Create env fs1 ?p = Some (fs1(?p \<mapsto> File []))" by blast
  note u = handleUpload_reaches_copy [OF assms(1) m c]
  note cp = io_Copy_to_file_over [OF assms(6,7)]
  show "resp (handleUpload dataDir env fs r) =
           http_Error [''Access-Control-Allow-Origin'' \<mapsto> rorigin r,
                       ''Access-Control-Allow-Methods'' \<mapsto> ''POST'',
                       ''Access-Control-Allow-Headers'' \<mapsto> ''Content-Type'']
             ''File too large. Maximum size is 52428800 bytes'' 413"
    by (simp add: u cp Let_def max_text)
  show "store (handleUpload dataDir env fs r) ?p =
           (if remove_fault env then Some (File (take maxUploadSize (rbody r))) else None)"
    by (simp add: u cp Let_def os_Remove_def)
qed

lemma handleUpload_complete:
  assumes "rmethod r = ''POST''"
    and "\<not> mkdir_fault env" and "\<not> create_fault env"
    and "\<not> is_file (fs (Clean dataDir))"
    and "fs (Join dataDir (generateUniqueID env)) \<noteq> Some Dir"
    and "length (rbody r) \<le> maxUploadSize"
    and "rbody_err r = None"
    and "write_fault env = None \<or> rbody r = []"
  shows "status (resp (handleUpload dataDir env fs r)) = 200"
    and "store (handleUpload dataDir env fs r) (Join dataDir (generateUniqueID env)) =
           Some (File (rbody r))"
proof -
  let ?p = "Join dataDir (generateUniqueID env)"
  from can_store [OF assms(2,3,4,5)] obtain fs1 where
    m: "os_MkdirAll env fs dataDir = Some fs1"
    and c: "os_Create env fs1 ?p = Some (fs1(?p \<mapsto> File []))" by blast
  note u = handleUpload_reaches_copy [OF assms(1) m c]
  have cp: "io_Copy_to_file env (fs1(?p \<mapsto> File [])) ?p
              (MaxBytesReader maxUploadSize (rbody r, rbody_err r)) =
            ((fs1(?p \<mapsto> File []))(?p \<mapsto> File (rbody r)), None)"
    using assms(6,7,8) io_Copy_to_file_empty io_Copy_to_file_within by metis
  show "status (resp (handleUpload dataDir env fs r)) = 200"
    by (simp add: u cp Let_def)
  show "store (handleUpload dataDir env fs r) ?p = Some (File (rbody r))"
    by (simp add: u cp Let_def)
qed

subsection \<open>Further inputs, evaluated\<close>

lemma sample_fs_ok:
  "\<not> is_file (Map.empty (Clean ''./data''))"
  "Map.empty (Join ''./data'' (generateUniqueID sample_env)) \<noteq> Some Dir"
  by (simp_all add: is_file_def)

lemma missing_path:
  "Join ''./data'' (Base ''/api/v2/nonexistent-key'') = ''data/nonexistent-key''"
  by code_simp

lemma handleDownload_calls:
  "c \<in> set (calls (handleDownload dataDir env fs g)) \<Longrightarrow>
   path_of c = Join dataDir (Base (rpath g))"
  by (auto simp: handleDownload_def Let_def
           split: if_splits stat_result.splits option.splits)

lemma traversal_paths:
  "Join ''./data'' (Base ''/api/v2/..'') = ''.''"
  "Join ''./data'' (Base ''/some/dir/../11700000000000000000'') = ''data/11700000000000000000''"
  "Base ''/some/dir/../11700000000000000000'' \<noteq> ''..''"
  "under_root ''./data'' ''data/11700000000000000000''"
  "\<not> under_root ''./data'' ''.''"
  by code_simp+

subsection \<open>Blobs before and after an upload\<close>

lemma io_Copy_to_file_fst:
  "\<exists>b. fst (io_Copy_to_file env fs p rd) = fs(p \<mapsto> File b)"
  by (auto simp: io_Copy_to_file_def split: option.splits prod.splits)

lemma blob_at_upd_File: "blob_at (fs(p \<mapsto> File b)) = (blob_at fs)(p \<mapsto> b)"
  by (auto simp: blob_at_def fun_eq_iff)

lemma blob_at_removed:
  assumes "blob_at fs p = None"
  shows "blob_at (fs(p := None)) = blob_at fs"
proof
  fix q
  show "blob_at (fs(p := None)) q = blob_at fs q"
    using assms by (cases "q = p") (simp_all add: blob_at_def)
qed

lemma handleUpload_blobs:
  assumes "fs (Join dataDir (generateUniqueID env)) = None" and "\<not> remove_fault env"
  shows "status (resp (handleUpload dataDir env fs r)) \<noteq> 200 \<Longrightarrow>
           blob_at (store (handleUpload dataDir env fs r)) = blob_at fs \<and>
           store (handleUpload dataDir env fs r) (Join dataDir (generateUniqueID env)) = None"
    and "status (resp (handleUpload dataDir env fs r)) = 200 \<Longrightarrow>
           blob_at (store (handleUpload dataDir env fs r))
             = (blob_at fs)(Join dataDir (generateUniqueID env) \<mapsto> rbody r)"
proof -
  let ?p = "Join dataDir (generateUniqueID env)"
  let ?up = "handleUpload dataDir env fs r"
  have fresh: "blob_at fs ?p = None" using assms(1) by (simp add: blob_at_def)
  {
    assume ok: "status (resp ?up) = 200"
    from handleUpload_200 [OF ok] obtain fs1 fs2 where
      m: "os_MkdirAll env fs dataDir = Some fs1"
      and c: "os_Create env fs1 ?p = Some fs2"
      and s: "store ?up = fs2(?p \<mapsto> File (rbody r))" by blast
    from os_Create_result [OF c] have "fs2 = fs1(?p \<mapsto> File [])" .
    with s have "store ?up = fs1(?p \<mapsto> File (rbody r))" by simp
    then show "blob_at (store ?up) = (blob_at fs)(?p \<mapsto> rbody r)"
      by (simp add: blob_at_upd_File os_MkdirAll_frame(1) [OF m])
  }
  {
    assume bad: "status (resp ?up) \<noteq> 200"
    show "blob_at (store ?up) = blob_at fs \<and> store ?up ?p = None"
    proof (cases "rmethod r = ''POST''")
      case False
      then show ?thesis using assms(1) by (simp add: handleUpload_def)
    next
      case post: True
      show ?thesis
      proof (cases "os_MkdirAll env fs dataDir")
        case None
        then show ?thesis using post assms(1) by (simp add: handleUpload_def)
      next
        case (Some fs1)
        note fr = os_MkdirAll_frame [OF Some]
        have p1: "fs1 ?p = None" using fr(2) [of ?p] Join_key_not_root assms(1) by simp
        show ?thesis
        proof (cases "os_Create env fs1 ?p")
          case None
          then show ?thesis using post Some p1 fr(1) by (simp add: handleUpload_def Let_def)
        next
          case (Some fs2)
          note u = handleUpload_reaches_copy [OF post \<open>os_MkdirAll env fs dataDir = Some fs1\<close> Some]
          let ?cp = "io_Copy_to_file env fs2 ?p (MaxBytesReader maxUploadSize (rbody r, rbody_err r))"
          from io_Copy_to_file_fst obtain b where b: "fst ?cp = fs2(?p \<mapsto> File b)" by blast
          from os_Create_result [OF Some] have f2: "fs2 = fs1(?p \<mapsto> File [])" .
          from bad obtain err where e: "snd ?cp = Some err"
            by (cases "snd ?cp") (auto simp: u Let_def)
          have st: "store ?up = fs1(?p := None)"
            using e b f2 assms(2) by (simp add: u Let_def os_Remove_def)
          have "blob_at fs1 ?p = None" using p1 by (simp add: blob_at_def)
          then have "blob_at (store ?up) = blob_at fs"
            unfolding st by (simp add: blob_at_removed fr(1))
          then show ?thesis by (simp add: st)
        qed
      qed
    qed
  }
qed

subsection \<open>Keys of two uploads\<close>

lemma generateUniqueID_cong:
  "getpid e = getpid e' \<Longrightarrow> unix_nano e = unix_nano e' \<Longrightarrow>
   generateUniqueID e = generateUniqueID e'"
  by (simp add: generateUniqueID_def)

lemma generateUniqueID_same_pid:
  assumes "getpid e = getpid e'"
  shows "(generateUniqueID e = generateUniqueID e') = (unix_nano e = unix_nano e')"
  using assms Sprintf_d_inj by (auto simp: generateUniqueID_def)

lemma sample_key_later:
  "generateUniqueID (sample_env\<lparr>unix_nano := 1700000000000000001\<rparr>) = ''11700000000000000001''"
  by (simp add: generateUniqueID_def Sprintf_d_def sample_env_def itoa_1)
     (simp add: itoa.simps digit_char_simps)

lemma sample_path_later:
  "Join ''./data'' ''11700000000000000001'' = ''data/11700000000000000001''"
  by code_simp

lemma cut_upload:
  "handleUpload ''./data'' (sample_env\<lparr>remove_fault := f\<rparr>) Map.empty (cut_post [1, 2, 3]) =
     \<lparr>resp = http_Error [''Access-Control-Allow-Origin'' \<mapsto> ''https://excalidraw.com'',
                         ''Access-Control-Allow-Methods'' \<mapsto> ''POST'',
                         ''Access-Control-Allow-Headers'' \<mapsto> ''Content-Type'']
               ''Could not save file'' 500,
      store = (if f then [''data'' \<mapsto> Dir, ''data/11700000000000000000'' \<mapsto> File [1, 2, 3]]
               else [''data'' \<mapsto> Dir]),
      calls = [MkdirAll ''./data'', Create ''data/11700000000000000000'',
               CopyTo ''data/11700000000000000000'', Remove ''data/11700000000000000000'']\<rparr>"
proof -
  have k: "generateUniqueID (sample_env\<lparr>remove_fault := f\<rparr>) = ''11700000000000000000''"
    using generateUniqueID_cong [of "sample_env\<lparr>remove_fault := f\<rparr>" sample_env]
    by (simp add: sample_key)
  have e: "mkdir_fault (sample_env\<lparr>remove_fault := f\<rparr>) = False"
    "create_fault (sample_env\<lparr>remove_fault := f\<rparr>) = False"
    "write_fault (sample_env\<lparr>remove_fault := f\<rparr>) = None"
    "remove_fault (sample_env\<lparr>remove_fault := f\<rparr>) = f"
    by (simp_all add: sample_env_def)
  show ?thesis
    unfolding handleUpload_def
    by (auto simp: k e sample_path sample_root cut_post_def sample_post_def maxUploadSize_def
          os_MkdirAll_def os_Create_def io_Copy_to_file_def MaxBytesReader_def os_Remove_def
          Let_def fun_eq_iff)
qed

lemma later_upload:
  "resp (handleUpload ''./data'' (sample_env\<lparr>unix_nano := 1700000000000000001\<rparr>)
           [''data'' \<mapsto> Dir, ''data/11700000000000000000'' \<mapsto> File [1, 2, 3]]
           (sample_post [1, 2, 3])) =
     \<lparr>status = 200,
      headers = [''Access-Control-Allow-Origin'' \<mapsto> ''https://excalidraw.com'',
                 ''Access-Control-Allow-Methods'' \<mapsto> ''POST'',
                 ''Access-Control-Allow-Headers'' \<mapsto> ''Content-Type'',
                 ''Content-Type'' \<mapsto> ''application/json''],
      payload = JsonBody
        [(''dataKey'', ''11700000000000000001''),
         (''url'', ''http://localhost:8080/api/v2/11700000000000000001'')]\<rparr>"
proof -
  have e: "mkdir_fault (sample_env\<lparr>unix_nano := 1700000000000000001\<rparr>) = False"
    "create_fault (sample_env\<lparr>unix_nano := 1700000000000000001\<rparr>) = False"
    "write_fault (sample_env\<lparr>unix_nano := 1700000000000000001\<rparr>) = None"
    by (simp_all add: sample_env_def)
  show ?thesis
    unfolding handleUpload_def
    by (simp add: e sample_key_later sample_path_later sample_root sample_post_def
          maxUploadSize_def os_MkdirAll_def os_Create_def io_Copy_to_file_def
          MaxBytesReader_def Let_def)
qed

lemma repeated_upload:
  "resp (handleUpload ''./data'' sample_env
           [''data'' \<mapsto> Dir, ''data/11700000000000000000'' \<mapsto> File [1, 2, 3]]
           (sample_post [1, 2, 3])) =
     \<lparr>status = 200,
      headers = [''Access-Control-Allow-Origin'' \<mapsto> ''https://excalidraw.com'',
                 ''Access-Control-Allow-Methods'' \<mapsto> ''POST'',
                 ''Access-Control-Allow-Headers'' \<mapsto> ''Content-Type'',
                 ''Content-Type'' \<mapsto> ''application/json''],
      payload = JsonBody
        [(''dataKey'', ''11700000000000000000''),
         (''url'', ''http://localhost:8080/api/v2/11700000000000000000'')]\<rparr>"
  unfolding handleUpload_def
  by (simp add: sample_simps maxUploadSize_def os_MkdirAll_def os_Create_def
        io_Copy_to_file_def MaxBytesReader_def Let_def)

section \<open>Properties of the handlers\<close>

text \<open>
  C1. Round trip: when an upload of a body of at most \<open>maxUploadSize\<close> bytes succeeds
  (status 200) and its JSON response names the key \<open>K\<close>, a later GET of
  \<^verbatim>\<open>/api/v2/K\<close> on the file system the upload left, in an environment where the file can
  be opened and the copy to the client is not cut, answers 200 with exactly the uploaded
  bytes as body.
\<close>

theorem upload_download_roundtrip:
  assumes "length (rbody r) \<le> maxUploadSize"
    and "status (resp (handleUpload dataDir env fs r)) = 200"
    and "payload (resp (handleUpload dataDir env fs r)) = JsonBody [(''dataKey'', K), (''url'', U)]"
    and "rmethod g = ''GET''"
    and "rpath g = ''/api/v2/'' @ K"
    and "\<not> open_fault env'"
    and "send_fault env' = None"
  shows "status (resp (handleDownload dataDir env' (store (handleUpload dataDir env fs r)) g)) = 200 \<and>
         payload (resp (handleDownload dataDir env' (store (handleUpload dataDir env fs r)) g))
           = RawBody (rbody r)"
proof -
  let ?up = "handleUpload dataDir env fs r"
  from handleUpload_200 [OF assms(2)] obtain fs1 fs2 where
    st: "store ?up = fs2(Join dataDir (generateUniqueID env) \<mapsto> File (rbody r))"
    and rp: "payload (resp ?up) =
               JsonBody [(''dataKey'', generateUniqueID env),
                         (''url'', (if rtls r then ''https'' else ''http'') @ ''://''
                                   @ rhost r @ ''/api/v2/'' @ generateUniqueID env)]"
    by auto
  from rp assms(3) have K: "K = generateUniqueID env" by simp
  have b: "Base (rpath g) = generateUniqueID env"
    unfolding assms(5) K by (rule Base_key)
  have f: "store ?up (Join dataDir (Base (rpath g))) = Some (File (rbody r))"
    by (simp add: st b)
  from handleDownload_file [of g "store ?up" dataDir "rbody r" env', OF assms(4) f assms(6)]
    assms(7)
  show ?thesis by simp
qed

theorem upload_download_roundtrip_witness:
  "length (rbody (sample_post [1, 2, 3])) \<le> maxUploadSize \<and>
   status (resp (handleUpload ''./data'' sample_env Map.empty (sample_post [1, 2, 3]))) = 200 \<and>
   payload (resp (handleUpload ''./data'' sample_env Map.empty (sample_post [1, 2, 3])))
     = JsonBody [(''dataKey'', ''11700000000000000000''),
                 (''url'', ''http://localhost:8080/api/v2/11700000000000000000'')] \<and>
   rmethod (sample_get ''/api/v2/11700000000000000000'') = ''GET'' \<and>
   rpath (sample_get ''/api/v2/11700000000000000000'') = ''/api/v2/'' @ ''11700000000000000000'' \<and>
   \<not> open_fault sample_env \<and> send_fault sample_env = None \<and>
   status (resp (handleDownload ''./data'' sample_env
      (store (handleUpload ''./data'' sample_env Map.empty (sample_post [1, 2, 3])))
      (sample_get ''/api/v2/11700000000000000000''))) = 200 \<and>
   payload (resp (handleDownload ''./data'' sample_env
      (store (handleUpload ''./data'' sample_env Map.empty (sample_post [1, 2, 3])))
      (sample_get ''/api/v2/11700000000000000000''))) = RawBody [1, 2, 3]"
proof -
  have l: "length (rbody (sample_post [1, 2, 3])) \<le> maxUploadSize"
    by (simp add: sample_post_def maxUploadSize_def)
  have u: "handleUpload ''./data'' sample_env Map.empty (sample_post [1, 2, 3]) =
     \<lparr>resp = \<lparr>status = 200,
              headers = [''Access-Control-Allow-Origin'' \<mapsto> ''https://excalidraw.com'',
                         ''Access-Control-Allow-Methods'' \<mapsto> ''POST'',
                         ''Access-Control-Allow-Headers'' \<mapsto> ''Content-Type'',
                         ''Content-Type'' \<mapsto> ''application/json''],
              payload = JsonBody
                [(''dataKey'', ''11700000000000000000''),
                 (''url'', ''http://localhost:8080/api/v2/11700000000000000000'')]\<rparr>,
      store = [''data'' \<mapsto> Dir, ''data/11700000000000000000'' \<mapsto> File [1, 2, 3]],
      calls = [MkdirAll ''./data'', Create ''data/11700000000000000000'',
               CopyTo ''data/11700000000000000000'']\<rparr>"
    by (rule sample_upload) (simp add: maxUploadSize_def)
  have s: "status (resp (handleUpload ''./data'' sample_env Map.empty (sample_post [1, 2, 3]))) = 200"
    by (simp add: u)
  have p: "payload (resp (handleUpload ''./data'' sample_env Map.empty (sample_post [1, 2, 3])))
     = JsonBody [(''dataKey'', ''11700000000000000000''),
                 (''url'', ''http://localhost:8080/api/v2/11700000000000000000'')]"
    by (simp add: u)
  have m: "rmethod (sample_get ''/api/v2/11700000000000000000'') = ''GET''"
    by (simp add: sample_get_def)
  have q: "rpath (sample_get ''/api/v2/11700000000000000000'') = ''/api/v2/'' @ ''11700000000000000000''"
    by (simp add: sample_get_def)
  have o: "\<not> open_fault sample_env" and f: "send_fault sample_env = None"
    by (simp_all add: sample_env_fields)
  from upload_download_roundtrip [OF l s p m q o f] l s p m q o f
  show ?thesis by (simp add: sample_post_def)
qed

text \<open>
  C6. On every successful upload (status 200) the response is the JSON object with the
  fields \<open>dataKey\<close>, the generated key, and \<open>url\<close>, which is exactly
  \<^verbatim>\<open>scheme://host/api/v2/key\<close> with scheme \<open>https\<close> when the request came over TLS and
  \<open>http\<close> otherwise and the host of the request; its content type is
  \<^verbatim>\<open>application/json\<close>.
\<close>

theorem upload_success_json:
  assumes "status (resp (handleUpload dataDir env fs r)) = 200"
  shows "payload (resp (handleUpload dataDir env fs r)) =
           JsonBody [(''dataKey'', generateUniqueID env),
                     (''url'', (if rtls r then ''https'' else ''http'') @ ''://''
                               @ rhost r @ ''/api/v2/'' @ generateUniqueID env)] \<and>
         headers (resp (handleUpload dataDir env fs r)) ''Content-Type'' = Some ''application/json''"
  using handleUpload_200 [OF assms] by simp

theorem upload_success_json_witness:
  "status (resp (handleUpload ''./data'' sample_env Map.empty
                   ((sample_post [1, 2, 3])\<lparr>rtls := True\<rparr>))) = 200 \<and>
   payload (resp (handleUpload ''./data'' sample_env Map.empty
                    ((sample_post [1, 2, 3])\<lparr>rtls := True\<rparr>))) =
     JsonBody [(''dataKey'', ''11700000000000000000''),
               (''url'', ''https://localhost:8080/api/v2/11700000000000000000'')] \<and>
   headers (resp (handleUpload ''./data'' sample_env Map.empty
                    ((sample_post [1, 2, 3])\<lparr>rtls := True\<rparr>))) ''Content-Type''
     = Some ''application/json''"
proof -
  have s: "status (resp (handleUpload ''./data'' sample_env Map.empty
                   ((sample_post [1, 2, 3])\<lparr>rtls := True\<rparr>))) = 200"
    unfolding handleUpload_def
    by (simp add: sample_simps maxUploadSize_def
          os_MkdirAll_def os_Create_def io_Copy_to_file_def MaxBytesReader_def Let_def)
  from upload_success_json [OF s] s show ?thesis
    by (simp add: sample_key sample_post_def)
qed

text \<open>
  C10. An upload with an empty body, in an environment where the data directory can be
  made and the file created, answers 200 with a generated key and leaves an empty file
  under it; a GET of that key, when the file can be opened, answers 200 with an empty
  body and content type \<^verbatim>\<open>application/octet-stream\<close>.
\<close>

theorem empty_upload_roundtrip:
  assumes "rmethod r = ''POST''" and "rbody r = []" and "rbody_err r = None"
    and "\<not> mkdir_fault env" and "\<not> create_fault env"
    and "\<not> is_file (fs (Clean dataDir))"
    and "fs (Join dataDir (generateUniqueID env)) \<noteq> Some Dir"
    and "rmethod g = ''GET''" and "rpath g = ''/api/v2/'' @ generateUniqueID env"
    and "\<not> open_fault env'"
  shows "status (resp (handleUpload dataDir env fs r)) = 200 \<and>
         payload (resp (handleUpload dataDir env fs r)) =
           JsonBody [(''dataKey'', generateUniqueID env),
                     (''url'', (if rtls r then ''https'' else ''http'') @ ''://''
                               @ rhost r @ ''/api/v2/'' @ generateUniqueID env)] \<and>
         store (handleUpload dataDir env fs r) (Join dataDir (generateUniqueID env)) = Some (File []) \<and>
         status (resp (handleDownload dataDir env' (store (handleUpload dataDir env fs r)) g)) = 200 \<and>
         payload (resp (handleDownload dataDir env' (store (handleUpload dataDir env fs r)) g)) = RawBody [] \<and>
         headers (resp (handleDownload dataDir env' (store (handleUpload dataDir env fs r)) g)) ''Content-Type''
           = Some ''application/octet-stream''"
proof -
  let ?up = "handleUpload dataDir env fs r"
  have l: "length (rbody r) \<le> maxUploadSize" by (simp add: assms(2))
  have w: "write_fault env = None \<or> rbody r = []" by (simp add: assms(2))
  note c = handleUpload_complete [OF assms(1,4,5,6,7) l assms(3) w]
  have b: "Base (rpath g) = generateUniqueID env"
    unfolding assms(9) by (rule Base_key)
  have f: "store ?up (Join dataDir (Base (rpath g))) = Some (File [])"
    using c(2) by (simp add: b assms(2))
  note d = handleDownload_file [of g "store ?up" dataDir "[]" env', OF assms(8) f assms(10)]
  have e: "(case send_fault env' of None \<Rightarrow> [] | Some k \<Rightarrow> take k ([] :: bytes)) = []"
    by (cases "send_fault env'") simp_all
  from handleUpload_200 [OF c(1)] c f d e show ?thesis by (simp add: b)
qed

theorem empty_upload_roundtrip_witness:
  "status (resp (handleUpload ''./data'' sample_env Map.empty (sample_post []))) = 200 \<and>
   payload (resp (handleUpload ''./data'' sample_env Map.empty (sample_post []))) =
     JsonBody [(''dataKey'', ''11700000000000000000''),
               (''url'', ''http://localhost:8080/api/v2/11700000000000000000'')] \<and>
   store (handleUpload ''./data'' sample_env Map.empty (sample_post []))
     ''data/11700000000000000000'' = Some (File []) \<and>
   status (resp (handleDownload ''./data'' sample_env
      (store (handleUpload ''./data'' sample_env Map.empty (sample_post [])))
      (sample_get ''/api/v2/11700000000000000000''))) = 200 \<and>
   payload (resp (handleDownload ''./data'' sample_env
      (store (handleUpload ''./data'' sample_env Map.empty (sample_post [])))
      (sample_get ''/api/v2/11700000000000000000''))) = RawBody [] \<and>
   headers (resp (handleDownload ''./data'' sample_env
      (store (handleUpload ''./data'' sample_env Map.empty (sample_post [])))
      (sample_get ''/api/v2/11700000000000000000''))) ''Content-Type''
     = Some ''application/octet-stream''"
proof -
  have h: "rmethod (sample_post []) = ''POST''" "rbody (sample_post []) = []"
    "rbody_err (sample_post []) = None"
    "\<not> mkdir_fault sample_env" "\<not> create_fault sample_env"
    by (simp_all add: sample_post_def sample_env_fields)
  have g: "rmethod (sample_get ''/api/v2/11700000000000000000'') = ''GET''"
    "rpath (sample_get ''/api/v2/11700000000000000000'') = ''/api/v2/'' @ generateUniqueID sample_env"
    "\<not> open_fault sample_env"
    by (simp_all add: sample_get_def sample_env_fields sample_key)
  from empty_upload_roundtrip
         [where dataDir = "''./data''" and fs = Map.empty and env = sample_env
            and env' = sample_env, OF h sample_fs_ok g]
  show ?thesis by (simp add: sample_key sample_path sample_post_def)
qed

text \<open>
  C2. Size boundary. In an environment without faults (the directory can be made, the
  file created, written and removed) and with a body that the client sends completely:
  a body of exactly \<open>maxUploadSize\<close> bytes is answered with 200; a body of
  \<open>maxUploadSize + 1\<close> bytes is answered with 413, after which no file exists under the
  key generated for the attempt and a GET of that key is answered with 404 (500 when
  the existence check itself fails), never with the blob.
\<close>

theorem size_boundary:
  assumes "rmethod r = ''POST''" and "rbody_err r = None"
    and "\<not> mkdir_fault env" and "\<not> create_fault env"
    and "write_fault env = None" and "\<not> remove_fault env"
    and "\<not> is_file (fs (Clean dataDir))"
    and "fs (Join dataDir (generateUniqueID env)) \<noteq> Some Dir"
    and "rmethod g = ''GET''" and "rpath g = ''/api/v2/'' @ generateUniqueID env"
  shows "(length (rbody r) = maxUploadSize \<longrightarrow>
            status (resp (handleUpload dataDir env fs r)) = 200) \<and>
         (length (rbody r) = maxUploadSize + 1 \<longrightarrow>
            status (resp (handleUpload dataDir env fs r)) = 413 \<and>
            store (handleUpload dataDir env fs r) (Join dataDir (generateUniqueID env)) = None \<and>
            status (resp (handleDownload dataDir env' (store (handleUpload dataDir env fs r)) g))
              = (if stat_fault env' then 500 else 404))"
proof (intro conjI impI)
  assume "length (rbody r) = maxUploadSize"
  then have l: "length (rbody r) \<le> maxUploadSize" by simp
  from assms(5) have w: "write_fault env = None \<or> rbody r = []" by simp
  show "status (resp (handleUpload dataDir env fs r)) = 200"
    using assms(1,3,4,7,8) l assms(2) w by (rule handleUpload_complete(1))
next
  assume "length (rbody r) = maxUploadSize + 1"
  then have l: "maxUploadSize < length (rbody r)" by simp
  from assms(5) have w: "case write_fault env of None \<Rightarrow> True | Some (k, txt) \<Rightarrow> maxUploadSize \<le> k"
    by simp
  note t = handleUpload_too_large [OF assms(1,3,4,7,8) l w]
  show "status (resp (handleUpload dataDir env fs r)) = 413"
    by (simp add: t(1) http_Error_def)
  show n: "store (handleUpload dataDir env fs r) (Join dataDir (generateUniqueID env)) = None"
    using assms(6) by (simp add: t(2))
  have b: "Base (rpath g) = generateUniqueID env"
    unfolding assms(10) by (rule Base_key)
  from n have "store (handleUpload dataDir env fs r) (Join dataDir (Base (rpath g))) = None"
    by (simp add: b)
  with assms(9)
  show "status (resp (handleDownload dataDir env' (store (handleUpload dataDir env fs r)) g))
          = (if stat_fault env' then 500 else 404)"
    by (rule handleDownload_absent)
qed

theorem size_boundary_witness:
  "status (resp (handleUpload ''./data'' sample_env Map.empty
             (sample_post (replicate maxUploadSize 0)))) = 200 \<and>
   status (resp (handleUpload ''./data'' sample_env Map.empty
             (sample_post (replicate (maxUploadSize + 1) 0)))) = 413 \<and>
   store (handleUpload ''./data'' sample_env Map.empty
             (sample_post (replicate (maxUploadSize + 1) 0)))
     ''data/11700000000000000000'' = None \<and>
   status (resp (handleDownload ''./data'' sample_env
       (store (handleUpload ''./data'' sample_env Map.empty
                 (sample_post (replicate (maxUploadSize + 1) 0))))
       (sample_get ''/api/v2/11700000000000000000''))) = 404"
proof -
  have e: "\<not> mkdir_fault sample_env" "\<not> create_fault sample_env"
    "write_fault sample_env = None" "\<not> remove_fault sample_env"
    by (simp_all add: sample_env_fields)
  have g: "rmethod (sample_get ''/api/v2/11700000000000000000'') = ''GET''"
    "rpath (sample_get ''/api/v2/11700000000000000000'') = ''/api/v2/'' @ generateUniqueID sample_env"
    by (simp_all add: sample_get_def sample_key)
  have h: "rmethod (sample_post b) = ''POST''" "rbody_err (sample_post b) = None" for b
    by (simp_all add: sample_post_def)
  have l: "length (rbody (sample_post (replicate n 0))) = n" for n
    by (simp add: sample_post_def)
  from size_boundary
         [where dataDir = "''./data''" and fs = Map.empty and env = sample_env
            and env' = sample_env and r = "sample_post (replicate maxUploadSize 0)",
          OF h e sample_fs_ok g] l
  have a: "status (resp (handleUpload ''./data'' sample_env Map.empty
             (sample_post (replicate maxUploadSize 0)))) = 200"
    by blast
  from size_boundary
         [where dataDir = "''./data''" and fs = Map.empty and env = sample_env
            and env' = sample_env and r = "sample_post (replicate (maxUploadSize + 1) 0)",
          OF h e sample_fs_ok g] l
  have b: "status (resp (handleUpload ''./data'' sample_env Map.empty
             (sample_post (replicate (maxUploadSize + 1) 0)))) = 413 \<and>
           store (handleUpload ''./data'' sample_env Map.empty
             (sample_post (replicate (maxUploadSize + 1) 0)))
             (Join ''./data'' (generateUniqueID sample_env)) = None \<and>
           status (resp (handleDownload ''./data'' sample_env
             (store (handleUpload ''./data'' sample_env Map.empty
                 (sample_post (replicate (maxUploadSize + 1) 0))))
             (sample_get ''/api/v2/11700000000000000000'')))
             = (if stat_fault sample_env then 500 else 404)"
    by blast
  from a b show ?thesis by (simp add: sample_key sample_path sample_env_fields)
qed

text \<open>
  C3, as the code has it. Every upload that fails because the byte cap is exceeded (the
  body is longer than \<open>maxUploadSize\<close> and no write fails before the cap is reached) is
  answered with status 413 and the plain text
  \<^verbatim>\<open>File too large. Maximum size is 52428800 bytes\<close> followed by a newline, with content
  type \<^verbatim>\<open>text/plain; charset=utf-8\<close>: the body reports the maximum size, as text and not
  as a JSON object.
\<close>

theorem too_large_plain_text:
  assumes "rmethod r = ''POST''"
    and "\<not> mkdir_fault env" and "\<not> create_fault env"
    and "\<not> is_file (fs (Clean dataDir))"
    and "fs (Join dataDir (generateUniqueID env)) \<noteq> Some Dir"
    and "maxUploadSize < length (rbody r)"
    and "case write_fault env of None \<Rightarrow> True | Some (k, txt) \<Rightarrow> maxUploadSize \<le> k"
  shows "status (resp (handleUpload dataDir env fs r)) = 413 \<and>
         payload (resp (handleUpload dataDir env fs r)) =
           TextBody (''File too large. Maximum size is 52428800 bytes'' @ [CHR 0x0A]) \<and>
         Sprintf_d (int maxUploadSize) = ''52428800'' \<and>
         headers (resp (handleUpload dataDir env fs r)) ''Content-Type''
           = Some ''text/plain; charset=utf-8''"
  using handleUpload_too_large(1) [OF assms]
  by (simp add: http_Error_def max_text)

theorem too_large_plain_text_witness:
  "status (resp (handleUpload ''./data'' (sample_env\<lparr>write_fault := Some (maxUploadSize, ''no space left on device'')\<rparr>)
      Map.empty (sample_post (replicate (maxUploadSize + 1024) 0)))) = 413 \<and>
   payload (resp (handleUpload ''./data'' (sample_env\<lparr>write_fault := Some (maxUploadSize, ''no space left on device'')\<rparr>)
      Map.empty (sample_post (replicate (maxUploadSize + 1024) 0)))) =
     TextBody (''File too large. Maximum size is 52428800 bytes'' @ [CHR 0x0A]) \<and>
   headers (resp (handleUpload ''./data'' (sample_env\<lparr>write_fault := Some (maxUploadSize, ''no space left on device'')\<rparr>)
      Map.empty (sample_post (replicate (maxUploadSize + 1024) 0)))) ''Content-Type''
     = Some ''text/plain; charset=utf-8''"
proof -
  let ?env = "sample_env\<lparr>write_fault := Some (maxUploadSize, ''no space left on device'')\<rparr>"
  let ?r = "sample_post (replicate (maxUploadSize + 1024) 0)"
  have h: "rmethod ?r = ''POST''" "\<not> mkdir_fault ?env" "\<not> create_fault ?env"
    by (simp_all add: sample_post_def sample_env_def)
  have f: "\<not> is_file (Map.empty (Clean ''./data''))"
    "Map.empty (Join ''./data'' (generateUniqueID ?env)) \<noteq> Some Dir"
    by (simp_all add: is_file_def)
  have l: "maxUploadSize < length (rbody ?r)" by (simp add: sample_post_def)
  have w: "case write_fault ?env of None \<Rightarrow> True | Some (k, txt) \<Rightarrow> maxUploadSize \<le> k"
    by simp
  from too_large_plain_text [where dataDir = "''./data''" and fs = Map.empty, OF h f l w]
  show ?thesis by simp
qed

theorem too_large_not_json_counterexample:
  "status (resp (handleUpload ''./data'' sample_env Map.empty
             (sample_post (replicate (maxUploadSize + 1) 0)))) = 413 \<and>
   \<not> is_json_object (payload (resp (handleUpload ''./data'' sample_env Map.empty
             (sample_post (replicate (maxUploadSize + 1) 0))))) \<and>
   headers (resp (handleUpload ''./data'' sample_env Map.empty
             (sample_post (replicate (maxUploadSize + 1) 0)))) ''Content-Type''
     = Some ''text/plain; charset=utf-8''"
proof -
  let ?r = "sample_post (replicate (maxUploadSize + 1) 0)"
  have h: "rmethod ?r = ''POST''" "\<not> mkdir_fault sample_env" "\<not> create_fault sample_env"
    by (simp_all add: sample_post_def sample_env_fields)
  have l: "maxUploadSize < length (rbody ?r)" by (simp add: sample_post_def)
  have w: "case write_fault sample_env of None \<Rightarrow> True | Some (k, txt) \<Rightarrow> maxUploadSize \<le> k"
    by (simp add: sample_env_fields)
  from handleUpload_too_large(1)
         [where dataDir = "''./data''" and fs = Map.empty, OF h sample_fs_ok l w]
  show ?thesis by (simp add: http_Error_def is_json_object_def)
qed

text \<open>
  C4, as the code has it. For every GET whose storage path does not exist (the existence
  check reports that it is missing), the handler makes the existence check and no other
  file-system call: it neither opens nor reads. It answers with status 404, the plain
  text \<^verbatim>\<open>Could not find the file\<close> followed by a newline, content type
  \<^verbatim>\<open>text/plain; charset=utf-8\<close>.
\<close>

theorem download_missing_key:
  assumes "rmethod g = ''GET''" and "\<not> stat_fault env"
    and "fs (Join dataDir (Base (rpath g))) = None"
  shows "status (resp (handleDownload dataDir env fs g)) = 404 \<and>
         payload (resp (handleDownload dataDir env fs g))
           = TextBody (''Could not find the file'' @ [CHR 0x0A]) \<and>
         headers (resp (handleDownload dataDir env fs g)) ''Content-Type''
           = Some ''text/plain; charset=utf-8'' \<and>
         calls (handleDownload dataDir env fs g) = [Stat (Join dataDir (Base (rpath g)))]"
  using assms
  by (simp add: handleDownload_def Let_def os_Stat_def http_Error_def)

theorem download_missing_key_witness:
  "status (resp (handleDownload ''./data'' sample_env Map.empty
             (sample_get ''/api/v2/nonexistent-key''))) = 404 \<and>
   payload (resp (handleDownload ''./data'' sample_env Map.empty
             (sample_get ''/api/v2/nonexistent-key'')))
     = TextBody (''Could not find the file'' @ [CHR 0x0A]) \<and>
   headers (resp (handleDownload ''./data'' sample_env Map.empty
             (sample_get ''/api/v2/nonexistent-key''))) ''Content-Type''
     = Some ''text/plain; charset=utf-8'' \<and>
   calls (handleDownload ''./data'' sample_env Map.empty
             (sample_get ''/api/v2/nonexistent-key'')) = [Stat ''data/nonexistent-key'']"
proof -
  have h: "rmethod (sample_get ''/api/v2/nonexistent-key'') = ''GET''"
    "\<not> stat_fault sample_env"
    by (simp_all add: sample_get_def sample_env_fields)
  have f: "Map.empty (Join ''./data'' (Base (rpath (sample_get ''/api/v2/nonexistent-key'')))) = None"
    by simp
  have p: "rpath (sample_get ''/api/v2/nonexistent-key'') = ''/api/v2/nonexistent-key''"
    by (simp add: sample_get_def)
  from download_missing_key [where dataDir = "''./data''" and fs = Map.empty, OF h f]
  show ?thesis by (simp add: p missing_path)
qed

theorem download_missing_not_json_counterexample:
  "status (resp (handleDownload ''./data'' sample_env Map.empty
             (sample_get ''/api/v2/nonexistent-key''))) = 404 \<and>
   payload (resp (handleDownload ''./data'' sample_env Map.empty
             (sample_get ''/api/v2/nonexistent-key'')))
     \<noteq> JsonBody [(''message'', ''Could not find the file.'')] \<and>
   \<not> is_json_object (payload (resp (handleDownload ''./data'' sample_env Map.empty
             (sample_get ''/api/v2/nonexistent-key''))))"
  by (simp add: handleDownload_def Let_def os_Stat_def http_Error_def sample_get_def
        sample_env_fields is_json_object_def)

text \<open>
  C5, as the code has it. Every response of the download handler to a GET request
  carries \<^verbatim>\<open>Access-Control-Allow-Origin: *\<close>, whatever the request's \<^verbatim>\<open>Origin\<close> header,
  the file system and the outcome (200, 404 or 500).
\<close>

theorem download_cors_get:
  assumes "rmethod g = ''GET''"
  shows "headers (resp (handleDownload dataDir env fs (g\<lparr>rorigin := origin\<rparr>)))
           ''Access-Control-Allow-Origin'' = Some ''*''"
  using assms
  by (auto simp: handleDownload_def Let_def http_Error_def
           split: stat_result.splits option.splits)

theorem download_cors_get_witness:
  "headers (resp (handleDownload ''./data'' sample_env Map.empty
      ((sample_get ''/api/v2/nonexistent-key'')\<lparr>rorigin := ''https://excalidraw.com''\<rparr>)))
     ''Access-Control-Allow-Origin'' = Some ''*''"
proof -
  have "rmethod (sample_get ''/api/v2/nonexistent-key'') = ''GET''"
    by (simp add: sample_get_def)
  then show ?thesis by (rule download_cors_get)
qed

theorem download_cors_post_counterexample:
  "status (resp (handleDownload ''./data'' sample_env Map.empty
      ((sample_get ''/api/v2/nonexistent-key'')\<lparr>rmethod := ''POST''\<rparr>))) = 405 \<and>
   headers (resp (handleDownload ''./data'' sample_env Map.empty
      ((sample_get ''/api/v2/nonexistent-key'')\<lparr>rmethod := ''POST''\<rparr>)))
     ''Access-Control-Allow-Origin'' = None"
  by (simp add: handleDownload_def http_Error_def sample_get_def)

text \<open>
  C7, as the code has it. The key of a download is \<^verbatim>\<open>filepath.Base\<close> of the URL path,
  its last segment, and every file-system call of the handler addresses
  \<^verbatim>\<open>filepath.Join(dataDir, key)\<close>. With a configured (non-empty) data directory that
  path is the storage root itself or a direct child of it whenever the key is not
  \<open>..\<close>: no key carries a separator into the store.
\<close>

theorem download_path_under_root:
  assumes "dataDir \<noteq> []" and "Base (rpath g) \<noteq> ''..''"
  shows "(\<forall>c \<in> set (calls (handleDownload dataDir env fs g)).
            path_of c = Join dataDir (Base (rpath g))) \<and>
         under_root dataDir (Join dataDir (Base (rpath g)))"
  using assms handleDownload_calls under_root_Join by blast

theorem download_path_under_root_witness:
  "calls (handleDownload ''./data'' sample_env
            [''data'' \<mapsto> Dir, ''data/11700000000000000000'' \<mapsto> File [1, 2, 3]]
            (sample_get ''/some/dir/../11700000000000000000''))
     = [Stat ''data/11700000000000000000'', Open ''data/11700000000000000000'',
        CopyFrom ''data/11700000000000000000''] \<and>
   map path_of (calls (handleDownload ''./data'' sample_env
            [''data'' \<mapsto> Dir, ''data/11700000000000000000'' \<mapsto> File [1, 2, 3]]
            (sample_get ''/some/dir/../11700000000000000000'')))
     = [''data/11700000000000000000'', ''data/11700000000000000000'',
        ''data/11700000000000000000''] \<and>
   under_root ''./data'' ''data/11700000000000000000''"
proof -
  let ?g = "sample_get ''/some/dir/../11700000000000000000''"
  let ?fs = "[''data'' \<mapsto> Dir, ''data/11700000000000000000'' \<mapsto> File [1, 2, 3]]"
  have p: "rpath ?g = ''/some/dir/../11700000000000000000''" by (simp add: sample_get_def)
  have d: "''./data'' \<noteq> []" by simp
  have b: "Base (rpath ?g) \<noteq> ''..''" unfolding p by (rule traversal_paths(3))
  have c: "calls (handleDownload ''./data'' sample_env ?fs ?g)
     = [Stat ''data/11700000000000000000'', Open ''data/11700000000000000000'',
        CopyFrom ''data/11700000000000000000'']"
    by (simp add: handleDownload_def Let_def os_Stat_def os_Open_def sample_get_def
          sample_env_fields traversal_paths(2))
  from download_path_under_root [where env = sample_env and fs = ?fs, OF d b] c
  show ?thesis by (simp add: p traversal_paths(2))
qed

theorem download_path_escapes_counterexample:
  "calls (handleDownload ''./data'' sample_env [''.'' \<mapsto> Dir, ''data'' \<mapsto> Dir]
            (sample_get ''/api/v2/..''))
     = [Stat ''.'', Open ''.'', CopyFrom ''.''] \<and>
   \<not> under_root ''./data'' ''.''"
  by (simp add: handleDownload_def Let_def os_Stat_def os_Open_def sample_get_def
        sample_env_fields traversal_paths(1,5))

text \<open>
  C8, as the code has it. Let the path of the generated key be unused before the upload
  and let \<^verbatim>\<open>os.Remove\<close> succeed (the handler ignores its result). Then an upload that ends
  on any failure path (wrong method, directory or file not created, write error, body
  over the limit, client disconnect) leaves the blobs of the file system as they were:
  none is created, none exists under the generated key, and a GET of that key is not
  answered with 200. A successful upload adds exactly one blob, the uploaded bytes under
  the generated key, and changes no other.
\<close>

theorem upload_blob_accounting:
  assumes "fs (Join dataDir (generateUniqueID env)) = None" and "\<not> remove_fault env"
    and "rmethod g = ''GET''" and "rpath g = ''/api/v2/'' @ generateUniqueID env"
  shows "(status (resp (handleUpload dataDir env fs r)) \<noteq> 200 \<longrightarrow>
            blob_at (store (handleUpload dataDir env fs r)) = blob_at fs \<and>
            blob_at (store (handleUpload dataDir env fs r)) (Join dataDir (generateUniqueID env)) = None \<and>
            status (resp (handleDownload dataDir env' (store (handleUpload dataDir env fs r)) g)) \<noteq> 200) \<and>
         (status (resp (handleUpload dataDir env fs r)) = 200 \<longrightarrow>
            blob_at (store (handleUpload dataDir env fs r))
              = (blob_at fs)(Join dataDir (generateUniqueID env) \<mapsto> rbody r))"
proof (intro conjI impI)
  assume bad: "status (resp (handleUpload dataDir env fs r)) \<noteq> 200"
  from handleUpload_blobs(1) [OF assms(1,2) bad]
  have b: "blob_at (store (handleUpload dataDir env fs r)) = blob_at fs"
    and n: "store (handleUpload dataDir env fs r) (Join dataDir (generateUniqueID env)) = None"
    by blast+
  show "blob_at (store (handleUpload dataDir env fs r)) = blob_at fs" by (rule b)
  show "blob_at (store (handleUpload dataDir env fs r)) (Join dataDir (generateUniqueID env)) = None"
    using n by (simp add: blob_at_def)
  have k: "Base (rpath g) = generateUniqueID env"
    unfolding assms(4) by (rule Base_key)
  from n have "store (handleUpload dataDir env fs r) (Join dataDir (Base (rpath g))) = None"
    by (simp add: k)
  from handleDownload_absent
         [of g "store (handleUpload dataDir env fs r)" dataDir env', OF assms(3) this]
  show "status (resp (handleDownload dataDir env' (store (handleUpload dataDir env fs r)) g)) \<noteq> 200"
    by simp
next
  assume "status (resp (handleUpload dataDir env fs r)) = 200"
  with assms(1,2)
  show "blob_at (store (handleUpload dataDir env fs r))
          = (blob_at fs)(Join dataDir (generateUniqueID env) \<mapsto> rbody r)"
    by (rule handleUpload_blobs(2))
qed

theorem upload_blob_accounting_witness:
  "status (resp (handleUpload ''./data'' sample_env Map.empty (cut_post [1, 2, 3]))) = 500 \<and>
   blob_at (store (handleUpload ''./data'' sample_env Map.empty (cut_post [1, 2, 3])))
     = blob_at Map.empty \<and>
   blob_at (store (handleUpload ''./data'' sample_env Map.empty (cut_post [1, 2, 3])))
     ''data/11700000000000000000'' = None \<and>
   status (resp (handleDownload ''./data'' sample_env
      (store (handleUpload ''./data'' sample_env Map.empty (cut_post [1, 2, 3])))
      (sample_get ''/api/v2/11700000000000000000''))) \<noteq> 200 \<and>
   status (resp (handleUpload ''./data'' sample_env Map.empty (sample_post [1, 2, 3]))) = 200 \<and>
   blob_at (store (handleUpload ''./data'' sample_env Map.empty (sample_post [1, 2, 3])))
     = (blob_at Map.empty)(''data/11700000000000000000'' \<mapsto> [1, 2, 3])"
proof -
  have f: "Map.empty (Join ''./data'' (generateUniqueID sample_env)) = None" by simp
  have e: "\<not> remove_fault sample_env" by (simp add: sample_env_fields)
  have g: "rmethod (sample_get ''/api/v2/11700000000000000000'') = ''GET''"
    "rpath (sample_get ''/api/v2/11700000000000000000'') = ''/api/v2/'' @ generateUniqueID sample_env"
    by (simp_all add: sample_get_def sample_key)
  have c: "sample_env\<lparr>remove_fault := False\<rparr> = sample_env" by (simp add: sample_env_def)
  have s1: "status (resp (handleUpload ''./data'' sample_env Map.empty (cut_post [1, 2, 3]))) = 500"
    using cut_upload [of False] by (simp add: c http_Error_def)
  have ne: "status (resp (handleUpload ''./data'' sample_env Map.empty (cut_post [1, 2, 3]))) \<noteq> 200"
    by (simp add: s1)
  have s2: "status (resp (handleUpload ''./data'' sample_env Map.empty (sample_post [1, 2, 3]))) = 200"
    by (simp add: sample_upload maxUploadSize_def)
  from upload_blob_accounting
         [where dataDir = "''./data''" and fs = Map.empty and env = sample_env
            and env' = sample_env and r = "cut_post [1, 2, 3]", OF f e g] ne
  have a: "blob_at (store (handleUpload ''./data'' sample_env Map.empty (cut_post [1, 2, 3])))
             = blob_at Map.empty \<and>
           blob_at (store (handleUpload ''./data'' sample_env Map.empty (cut_post [1, 2, 3])))
             (Join ''./data'' (generateUniqueID sample_env)) = None \<and>
           status (resp (handleDownload ''./data'' sample_env
             (store (handleUpload ''./data'' sample_env Map.empty (cut_post [1, 2, 3])))
             (sample_get ''/api/v2/11700000000000000000''))) \<noteq> 200"
    by blast
  from upload_blob_accounting
         [where dataDir = "''./data''" and fs = Map.empty and env = sample_env
            and env' = sample_env and r = "sample_post [1, 2, 3]", OF f e g] s2
  have b: "blob_at (store (handleUpload ''./data'' sample_env Map.empty (sample_post [1, 2, 3])))
             = (blob_at Map.empty)(Join ''./data'' (generateUniqueID sample_env) \<mapsto>
                  rbody (sample_post [1, 2, 3]))"
    by blast
  have r: "rbody (sample_post [1, 2, 3]) = [1, 2, 3]" by (simp add: sample_post_def)
  from a b s1 s2 show ?thesis
    unfolding sample_key sample_path r by blast
qed

theorem upload_remove_fails_counterexample:
  "status (resp (handleUpload ''./data'' (sample_env\<lparr>remove_fault := True\<rparr>) Map.empty
                   (cut_post [1, 2, 3]))) = 500 \<and>
   store (handleUpload ''./data'' (sample_env\<lparr>remove_fault := True\<rparr>) Map.empty
            (cut_post [1, 2, 3])) ''data/11700000000000000000'' = Some (File [1, 2, 3]) \<and>
   status (resp (handleDownload ''./data'' sample_env
      (store (handleUpload ''./data'' (sample_env\<lparr>remove_fault := True\<rparr>) Map.empty
                (cut_post [1, 2, 3])))
      (sample_get ''/api/v2/11700000000000000000''))) = 200 \<and>
   payload (resp (handleDownload ''./data'' sample_env
      (store (handleUpload ''./data'' (sample_env\<lparr>remove_fault := True\<rparr>) Map.empty
                (cut_post [1, 2, 3])))
      (sample_get ''/api/v2/11700000000000000000''))) = RawBody [1, 2, 3]"
proof -
  let ?st = "store (handleUpload ''./data'' (sample_env\<lparr>remove_fault := True\<rparr>) Map.empty
                (cut_post [1, 2, 3]))"
  let ?g = "sample_get ''/api/v2/11700000000000000000''"
  note u = cut_upload [of True]
  have m: "rmethod ?g = ''GET''" by (simp add: sample_get_def)
  have f: "?st (Join ''./data'' (Base (rpath ?g))) = Some (File [1, 2, 3])"
    by (simp add: u sample_get_def sample_base sample_path)
  have o: "\<not> open_fault sample_env" by (simp add: sample_env_fields)
  from handleDownload_file [of ?g ?st "''./data''" "[1, 2, 3]" sample_env, OF m f o]
  have d: "resp (handleDownload ''./data'' sample_env ?st ?g) =
           \<lparr>status = 200,
            headers = [''Access-Control-Allow-Origin'' \<mapsto> ''*'',
                       ''Access-Control-Allow-Methods'' \<mapsto> ''GET'',
                       ''Content-Type'' \<mapsto> ''application/octet-stream''],
            payload = RawBody [1, 2, 3]\<rparr>"
    by (simp add: sample_env_fields)
  show ?thesis by (simp add: d) (simp add: u http_Error_def)
qed

text \<open>
  C9, as the code has it. The generated key is the decimal process id followed by the
  decimal nanosecond clock reading; nothing of the request enters it. So for any two
  successful uploads by the same process, whatever their bodies (identical or not),
  data directories and file systems, the two keys returned are equal exactly when the
  two clock readings are equal: distinct readings give distinct keys, one reading gives
  one key.
\<close>

theorem key_from_pid_and_clock:
  assumes "status (resp (handleUpload dataDir env fs r)) = 200"
    and "status (resp (handleUpload dataDir' env' fs' r')) = 200"
    and "payload (resp (handleUpload dataDir env fs r)) = JsonBody [(''dataKey'', K), (''url'', U)]"
    and "payload (resp (handleUpload dataDir' env' fs' r')) = JsonBody [(''dataKey'', K'), (''url'', U')]"
    and "getpid env = getpid env'"
  shows "(K = K') = (unix_nano env = unix_nano env')"
proof -
  from handleUpload_200 [OF assms(1)] assms(3) have k: "K = generateUniqueID env" by simp
  from handleUpload_200 [OF assms(2)] assms(4) have k': "K' = generateUniqueID env'" by simp
  show ?thesis unfolding k k' using assms(5) by (rule generateUniqueID_same_pid)
qed

theorem key_from_pid_and_clock_witness:
  "status (resp (handleUpload ''./data'' sample_env Map.empty (sample_post [1, 2, 3]))) = 200 \<and>
   status (resp (handleUpload ''./data'' (sample_env\<lparr>unix_nano := 1700000000000000001\<rparr>)
      (store (handleUpload ''./data'' sample_env Map.empty (sample_post [1, 2, 3])))
      (sample_post [1, 2, 3]))) = 200 \<and>
   payload (resp (handleUpload ''./data'' sample_env Map.empty (sample_post [1, 2, 3]))) =
     JsonBody [(''dataKey'', ''11700000000000000000''),
               (''url'', ''http://localhost:8080/api/v2/11700000000000000000'')] \<and>
   payload (resp (handleUpload ''./data'' (sample_env\<lparr>unix_nano := 1700000000000000001\<rparr>)
      (store (handleUpload ''./data'' sample_env Map.empty (sample_post [1, 2, 3])))
      (sample_post [1, 2, 3]))) =
     JsonBody [(''dataKey'', ''11700000000000000001''),
               (''url'', ''http://localhost:8080/api/v2/11700000000000000001'')] \<and>
   getpid sample_env = getpid (sample_env\<lparr>unix_nano := 1700000000000000001\<rparr>) \<and>
   ((''11700000000000000000'' = ''11700000000000000001'') =
    (unix_nano sample_env = unix_nano (sample_env\<lparr>unix_nano := 1700000000000000001\<rparr>)))"
proof -
  let ?env' = "sample_env\<lparr>unix_nano := 1700000000000000001\<rparr>"
  let ?up = "handleUpload ''./data'' sample_env Map.empty (sample_post [1, 2, 3])"
  have l: "length [1, 2, 3 :: byte] \<le> maxUploadSize" by (simp add: maxUploadSize_def)
  note u = sample_upload [OF l]
  have st: "store ?up = [''data'' \<mapsto> Dir, ''data/11700000000000000000'' \<mapsto> File [1, 2, 3]]"
    by (simp add: u)
  have s1: "status (resp ?up) = 200" by (simp add: u)
  have p1: "payload (resp ?up) =
     JsonBody [(''dataKey'', ''11700000000000000000''),
               (''url'', ''http://localhost:8080/api/v2/11700000000000000000'')]"
    by (simp add: u)
  have s2: "status (resp (handleUpload ''./data'' ?env' (store ?up) (sample_post [1, 2, 3]))) = 200"
    unfolding st by (simp add: later_upload)
  have p2: "payload (resp (handleUpload ''./data'' ?env' (store ?up) (sample_post [1, 2, 3]))) =
     JsonBody [(''dataKey'', ''11700000000000000001''),
               (''url'', ''http://localhost:8080/api/v2/11700000000000000001'')]"
    unfolding st by (simp add: later_upload)
  have g: "getpid sample_env = getpid ?env'" by simp
  from key_from_pid_and_clock [OF s1 s2 p1 p2 g] s1 s2 p1 p2 g
  show ?thesis by blast
qed

theorem repeated_key_counterexample:
  "status (resp (handleUpload ''./data'' sample_env Map.empty (sample_post [1, 2, 3]))) = 200 \<and>
   status (resp (handleUpload ''./data'' sample_env
      (store (handleUpload ''./data'' sample_env Map.empty (sample_post [1, 2, 3])))
      (sample_post [1, 2, 3]))) = 200 \<and>
   payload (resp (handleUpload ''./data'' sample_env Map.empty (sample_post [1, 2, 3]))) =
     JsonBody [(''dataKey'', ''11700000000000000000''),
               (''url'', ''http://localhost:8080/api/v2/11700000000000000000'')] \<and>
   payload (resp (handleUpload ''./data'' sample_env
      (store (handleUpload ''./data'' sample_env Map.empty (sample_post [1, 2, 3])))
      (sample_post [1, 2, 3]))) =
     JsonBody [(''dataKey'', ''11700000000000000000''),
               (''url'', ''http://localhost:8080/api/v2/11700000000000000000'')]"
proof -
  let ?up = "handleUpload ''./data'' sample_env Map.empty (sample_post [1, 2, 3])"
  have l: "length [1, 2, 3 :: byte] \<le> maxUploadSize" by (simp add: maxUploadSize_def)
  note u = sample_upload [OF l]
  have st: "store ?up = [''data'' \<mapsto> Dir, ''data/11700000000000000000'' \<mapsto> File [1, 2, 3]]"
    by (simp add: u)
  show ?thesis unfolding st by (simp add: u repeated_upload)
qed

end
